theory Spec2Isabelle
  imports Complex_Main
begin

section \<open>Strings: the Python string operations the plotting scripts use\<close>

text \<open>
  Both scripts (\<^verbatim>\<open>ftn_graphing.py\<close>, the team chart, and \<^verbatim>\<open>graphing.py\<close>, the
  quarterback chart) derive the text label of a point with \<^verbatim>\<open>str.split\<close> and
  \<^verbatim>\<open>str.join\<close>. A Python string is modelled as a \<^typ>\<open>string\<close>; a \<^typ>\<open>char\<close>
  stands for a code point below 256.
\<close>

datatype py_error =
  KeyError | TypeError | ValueError | IndexError | AttributeError | ZeroDivisionError | OSError
  | MergeError

text \<open>\<^verbatim>\<open>s.split(d)\<close> with a one-character separator: every occurrence of the
  separator ends a token, empty tokens are kept, and the result is never empty.\<close>

fun split_on :: "char \<Rightarrow> string \<Rightarrow> string list" where
  "split_on d [] = [[]]"
| "split_on d (c # cs) =
     (if c = d then [] # split_on d cs
      else (case split_on d cs of
              [] \<Rightarrow> [[c]]
            | t # ts \<Rightarrow> (c # t) # ts))"

text \<open>\<^verbatim>\<open>sep.join(xs)\<close>.\<close>

fun join :: "string \<Rightarrow> string list \<Rightarrow> string" where
  "join sep [] = []"
| "join sep [x] = x"
| "join sep (x # y # ys) = x @ sep @ join sep (y # ys)"

text \<open>\<^verbatim>\<open>str.isspace\<close> on one code point below 256: tab, line feed, vertical tab, form
  feed, carriage return, the four separators 28 to 31, space, next line (133) and the
  no-break space (160).\<close>

definition is_space :: "char \<Rightarrow> bool" where
  "is_space c = (of_char c \<in> {9, 10, 11, 12, 13, 28, 29, 30, 31, 32, 133, 160 :: nat})"

text \<open>\<^verbatim>\<open>s.split()\<close> without a separator: the maximal runs of characters that are
  not whitespace; there are no empty tokens. \<open>cur\<close> is the token being read.\<close>

fun split_ws_from :: "string \<Rightarrow> string \<Rightarrow> string list" where
  "split_ws_from cur [] = (if cur = [] then [] else [cur])"
| "split_ws_from cur (c # cs) =
     (if is_space c
      then (if cur = [] then split_ws_from [] cs else cur # split_ws_from [] cs)
      else split_ws_from (cur @ [c]) cs)"

definition split_ws :: "string \<Rightarrow> string list" where
  "split_ws s = split_ws_from [] s"

text \<open>\<^verbatim>\<open>ftn_graphing.py\<close>, lines 85 and 86:
  \<^verbatim>\<open>label_parts = label_text.split(" ")\<close>,
  \<^verbatim>\<open>clean_label = " ".join(label_parts[1:]) if len(label_parts) > 1 else label_text\<close>.\<close>

definition clean_label :: "string \<Rightarrow> string" where
  "clean_label label_text =
     (let label_parts = split_on CHR '' '' label_text
      in if length label_parts > 1 then join '' '' (drop 1 label_parts) else label_text)"

text \<open>\<^verbatim>\<open>graphing.py\<close>, line 66: \<^verbatim>\<open>row['Player Name'].split()[-1]\<close>. Indexing the empty
  token list raises \<^verbatim>\<open>IndexError\<close>.\<close>

definition qb_label :: "string \<Rightarrow> py_error + string" where
  "qb_label player_name =
     (case split_ws player_name of
        [] \<Rightarrow> Inl IndexError
      | t # ts \<Rightarrow> Inr (last (t # ts)))"

text \<open>The label rule in the words of the specification, for comparison with the two
  functions above: split the raw label on whitespace; with more than one token drop the
  first and rejoin the rest by a single space; otherwise keep the label unchanged.\<close>

definition spec_clean_label :: "string \<Rightarrow> string" where
  "spec_clean_label raw =
     (let tokens = split_ws raw
      in if length tokens > 1 then join '' '' (drop 1 tokens) else raw)"

text \<open>A word: a non-empty string without whitespace.\<close>

definition is_word :: "string \<Rightarrow> bool" where
  "is_word w = (w \<noteq> [] \<and> list_all (\<lambda>c. \<not> is_space c) w)"

section \<open>Data frames\<close>

text \<open>
  A cell of a pandas data frame is missing (\<open>NaN\<close>), a number or a text. Floating-point
  numbers are modelled as reals: rounding, infinities and overflow are outside the model.
  A row maps column names to cells; a frame is the ordered list of its column names
  (\<^verbatim>\<open>df.columns\<close>) and the ordered list of its rows. A row's value at a name that is
  not a column of the frame is never read: every model function checks the column list
  where pandas would raise \<^verbatim>\<open>KeyError\<close>.
\<close>

datatype cell = NaN | Num real | Str string

type_synonym row = "string \<Rightarrow> cell"

record frame =
  columns :: "string list"
  rows :: "row list"

text \<open>\<^verbatim>\<open>df[col]\<close>, the cells of one column in row order.\<close>

definition column :: "frame \<Rightarrow> string \<Rightarrow> cell list" where
  "column df col = map (\<lambda>r. r col) (rows df)"

text \<open>A row written as a list of fields, for concrete frames.\<close>

definition row_of :: "(string \<times> cell) list \<Rightarrow> row" where
  "row_of kvs = (\<lambda>c. case map_of kvs c of None \<Rightarrow> NaN | Some v \<Rightarrow> v)"

fun is_text :: "cell \<Rightarrow> bool" where
  "is_text (Str s) = True"
| "is_text c = False"

text \<open>\<^verbatim>\<open>pd.api.types.is_numeric_dtype\<close>: \<^verbatim>\<open>read_csv\<close> gives a column a numeric dtype
  exactly when none of its cells is text; the cells of a numeric column are numbers and
  \<open>NaN\<close>. (A column without any number has no mean, whatever its dtype.)\<close>

definition is_numeric_dtype :: "cell list \<Rightarrow> bool" where
  "is_numeric_dtype cs = (\<not> list_ex is_text cs)"

text \<open>The numbers of a column: pandas reductions skip \<open>NaN\<close>.\<close>

fun nums :: "cell list \<Rightarrow> real list" where
  "nums [] = []"
| "nums (Num v # cs) = v # nums cs"
| "nums (c # cs) = nums cs"

text \<open>The reductions \<^verbatim>\<open>mean\<close>, \<^verbatim>\<open>std\<close> (the sample standard deviation, \<^verbatim>\<open>ddof=1\<close>),
  \<^verbatim>\<open>min\<close> and \<^verbatim>\<open>max\<close> on the numbers of a column. The result \<open>None\<close> is pandas'
  \<open>NaN\<close>: no mean, minimum or maximum of no value, no deviation of fewer than two.\<close>

definition pd_mean :: "real list \<Rightarrow> real option" where
  "pd_mean vs = (if vs = [] then None else Some (sum_list vs / real (length vs)))"

definition pd_std :: "real list \<Rightarrow> real option" where
  "pd_std vs =
     (if length vs < 2 then None
      else Some (sqrt (sum_list (map (\<lambda>v. (v - sum_list vs / real (length vs))\<^sup>2) vs)
                       / real (length vs - 1))))"

definition pd_min :: "real list \<Rightarrow> real option" where
  "pd_min vs = (case vs of [] \<Rightarrow> None | v # ws \<Rightarrow> Some (fold min ws v))"

definition pd_max :: "real list \<Rightarrow> real option" where
  "pd_max vs = (case vs of [] \<Rightarrow> None | v # ws \<Rightarrow> Some (fold max ws v))"

text \<open>Arithmetic and comparison with \<open>NaN\<close>: an operation on \<open>NaN\<close> gives \<open>NaN\<close>, a
  comparison with \<open>NaN\<close> is false.\<close>

definition nan_times :: "real option \<Rightarrow> real \<Rightarrow> real option" where
  "nan_times a k = map_option (\<lambda>v. v * k) a"

fun nan_minus :: "real option \<Rightarrow> real option \<Rightarrow> real option" where
  "nan_minus (Some a) (Some b) = Some (a - b)"
| "nan_minus a b = None"

fun nan_plus :: "real option \<Rightarrow> real option \<Rightarrow> real option" where
  "nan_plus (Some a) (Some b) = Some (a + b)"
| "nan_plus a b = None"

fun nan_gt :: "real option \<Rightarrow> real \<Rightarrow> bool" where
  "nan_gt (Some a) k = (a > k)"
| "nan_gt None k = False"

fun nan_le :: "real option \<Rightarrow> real \<Rightarrow> bool" where
  "nan_le (Some a) k = (a \<le> k)"
| "nan_le None k = False"

text \<open>A reduction called on a column of a frame: a text cell makes \<^verbatim>\<open>mean\<close> and
  \<^verbatim>\<open>std\<close> raise \<^verbatim>\<open>TypeError\<close>.\<close>

definition series_nums :: "cell list \<Rightarrow> py_error + real list" where
  "series_nums cs = (if list_ex is_text cs then Inl TypeError else Inr (nums cs))"

section \<open>The team chart: \<^verbatim>\<open>create_nfl_scatter_plot\<close>\<close>

subsection \<open>Percentage normalization (lines 25 to 28)\<close>

text \<open>\<^verbatim>\<open>df[col] / 100\<close> on one cell.\<close>

fun div100 :: "cell \<Rightarrow> cell" where
  "div100 (Num v) = Num (v / 100)"
| "div100 c = c"

text \<open>The body of the loop for one \<^verbatim>\<open>col\<close>:
  \<^verbatim>\<open>if col in df.columns: if is_numeric_dtype(df[col]) and df[col].mean() > 1: df[col] = df[col] / 100\<close>.\<close>

definition percent_step :: "string \<Rightarrow> frame \<Rightarrow> frame" where
  "percent_step col df =
     (if col \<in> set (columns df) then
        (if is_numeric_dtype (column df col) \<and> nan_gt (pd_mean (nums (column df col))) 1
         then df\<lparr>rows := map (\<lambda>r. r(col := div100 (r col))) (rows df)\<rparr>
         else df)
      else df)"

text \<open>\<^verbatim>\<open>for col in [x_col, y_col]: ...\<close>\<close>

definition normalize_axes :: "string \<Rightarrow> string \<Rightarrow> frame \<Rightarrow> frame" where
  "normalize_axes x_col y_col df = fold percent_step [x_col, y_col] df"

subsection \<open>The left join (lines 18 to 21)\<close>

text \<open>
  \<^verbatim>\<open>pd.merge(df, df_secondary, on=join_key, how='left', suffixes=('', '_secondary'))\<close>,
  as pandas documents a left join on one key column:
  \<^item> a key that is not a column of both frames raises \<^verbatim>\<open>KeyError\<close>;
  \<^item> a key column that holds text merged with a key column of numeric dtype (numbers, or
    nothing but missing values) raises \<^verbatim>\<open>ValueError\<close>;
  \<^item> the result has the columns of the left frame under their own names (the left suffix
    is empty), then the columns of the right frame but the key, a name that is also a
    column of the left frame getting the suffix \<^verbatim>\<open>_secondary\<close>; a suffixed name that
    is already the name of another column raises \<^verbatim>\<open>MergeError\<close>;
  \<^item> the rows follow the order of the left frame; a left row is paired with every right
    row of the same key (two missing keys are the same key), in the order of the right
    frame, and with a row of \<open>NaN\<close> when there is none.
\<close>

definition suffixed :: "string list \<Rightarrow> string \<Rightarrow> string" where
  "suffixed lcols c = (if c \<in> set lcols then c @ ''_secondary'' else c)"

definition merge_row :: "string list \<Rightarrow> string list \<Rightarrow> row \<Rightarrow> row option \<Rightarrow> row" where
  "merge_row lcols rcols l m =
     (\<lambda>c. if c \<in> set lcols then l c
          else (case find (\<lambda>c'. suffixed lcols c' = c) rcols of
                  None \<Rightarrow> NaN
                | Some c' \<Rightarrow> (case m of None \<Rightarrow> NaN | Some r \<Rightarrow> r c')))"

definition matches :: "frame \<Rightarrow> string \<Rightarrow> row \<Rightarrow> row list" where
  "matches right key l = filter (\<lambda>r. r key = l key) (rows right)"

text \<open>The dtype of a key column: numeric when it has rows and none of them holds a text.\<close>

definition numeric_key :: "cell list \<Rightarrow> bool" where
  "numeric_key cs = (cs \<noteq> [] \<and> is_numeric_dtype cs)"

text \<open>A suffixed name collides: a column of both frames, other than the key, whose name
  with the suffix is the name of a column of either frame.\<close>

definition suffix_collides :: "string list \<Rightarrow> string list \<Rightarrow> bool" where
  "suffix_collides lcols rcols =
     list_ex (\<lambda>c. c \<in> set lcols \<and> (c @ ''_secondary'' \<in> set lcols \<or> c @ ''_secondary'' \<in> set rcols))
       rcols"

definition pd_merge_left :: "frame \<Rightarrow> frame \<Rightarrow> string \<Rightarrow> py_error + frame" where
  "pd_merge_left left right key =
     (if key \<notin> set (columns left) \<or> key \<notin> set (columns right) then Inl KeyError
      else if (list_ex is_text (column left key) \<and> numeric_key (column right key))
            \<or> (numeric_key (column left key) \<and> list_ex is_text (column right key))
      then Inl ValueError
      else
        (let lcols = columns left; rcols = filter (\<lambda>c. c \<noteq> key) (columns right)
         in if suffix_collides lcols rcols then Inl MergeError
            else
              Inr \<lparr>columns = lcols @ map (suffixed lcols) rcols,
                   rows = concat (map (\<lambda>l. case matches right key l of
                                              [] \<Rightarrow> [merge_row lcols rcols l None]
                                            | r # rs \<Rightarrow> map (\<lambda>r. merge_row lcols rcols l (Some r)) (r # rs))
                                      (rows left))\<rparr>))"

text \<open>Python's truth value of an optional string argument: \<^verbatim>\<open>None\<close> and the empty
  string are false.\<close>

fun truthy :: "string option \<Rightarrow> bool" where
  "truthy None = False"
| "truthy (Some s) = (s \<noteq> [])"

text \<open>Lines 16 to 21. The frames are the results of \<^verbatim>\<open>read_csv\<close>; \<open>secondary\<close> is
  \<open>None\<close> when no secondary file is named.\<close>

definition load_and_join :: "frame \<Rightarrow> frame option \<Rightarrow> string option \<Rightarrow> py_error + frame" where
  "load_and_join df secondary join_key =
     (case (secondary, join_key) of
        (Some df_secondary, Some k) \<Rightarrow>
          (if k \<noteq> [] then pd_merge_left df df_secondary k else Inr df)
      | _ \<Rightarrow> Inr df)"

subsection \<open>Markers and labels (lines 48 to 91)\<close>

text \<open>What the chart reads from outside the frame: the logo files, Python's text of a
  number (\<^verbatim>\<open>str\<close>), and the number a numeric text denotes (\<open>None\<close> for any other
  text; the texts that Python reads as \<open>nan\<close> or \<open>inf\<close> are outside the model).\<close>

datatype image_file = NoFile | Unreadable | Picture nat nat

record env =
  file_at :: "string \<Rightarrow> image_file"
  text_of :: "real \<Rightarrow> string"
  number_of :: "string \<Rightarrow> real option"

type_synonym offset_image = "nat \<times> nat"

text \<open>\<^verbatim>\<open>int(zoom_size * aspect)\<close> with \<^verbatim>\<open>aspect = h / w\<close>: the size given to
  \<^verbatim>\<open>img.resize\<close>.\<close>

definition resized :: "nat \<Rightarrow> nat \<Rightarrow> nat \<Rightarrow> offset_image" where
  "resized zoom_size w h = (zoom_size, nat \<lfloor>real zoom_size * (real h / real w)\<rfloor>)"

text \<open>Lines 51 to 55 of \<^verbatim>\<open>getImage\<close>, the same in both charts: opening a file that
  cannot be decoded raises \<^verbatim>\<open>OSError\<close>, a picture of width 0 makes \<^verbatim>\<open>h / w\<close> raise
  \<^verbatim>\<open>ZeroDivisionError\<close>, and \<^verbatim>\<open>img.resize\<close> raises \<^verbatim>\<open>ValueError\<close> when a side of
  the new size is 0.\<close>

definition load_logo :: "image_file \<Rightarrow> nat \<Rightarrow> py_error + offset_image" where
  "load_logo file zoom_size =
     (case file of
        NoFile \<Rightarrow> Inl OSError
      | Unreadable \<Rightarrow> Inl OSError
      | Picture w h \<Rightarrow>
          (if w = 0 then Inl ZeroDivisionError
           else if fst (resized zoom_size w h) = 0 \<or> snd (resized zoom_size w h) = 0
           then Inl ValueError
           else Inr (resized zoom_size w h)))"

text \<open>\<^verbatim>\<open>getImage\<close> of the team chart: no file gives \<^verbatim>\<open>None\<close>, and so does every
  exception raised while the file is opened, decoded or resized
  (\<^verbatim>\<open>except Exception: return None\<close>).\<close>

definition getImage :: "env \<Rightarrow> string \<Rightarrow> nat \<Rightarrow> offset_image option" where
  "getImage e path zoom_size =
     (if file_at e path = NoFile then None
      else (case load_logo (file_at e path) zoom_size of
              Inl err \<Rightarrow> None
            | Inr img \<Rightarrow> Some img))"

text \<open>\<^verbatim>\<open>str(v)\<close> of a cell.\<close>

fun py_str :: "env \<Rightarrow> cell \<Rightarrow> string" where
  "py_str e (Str s) = s"
| "py_str e NaN = ''nan''"
| "py_str e (Num v) = text_of e v"

text \<open>What is drawn: a logo (\<^verbatim>\<open>AnnotationBbox\<close>), a plain dot (\<^verbatim>\<open>ax.scatter\<close>) or a
  text (\<^verbatim>\<open>plt.annotate\<close>), each at a point.\<close>

datatype artist = Logo offset_image cell cell | Dot cell cell | Label string cell cell

text \<open>Lines 69, 72 and 73: the label text of a row and the path of its logo.\<close>

definition label_text_of :: "env \<Rightarrow> string list \<Rightarrow> string \<Rightarrow> row \<Rightarrow> string" where
  "label_text_of e cols label_col r =
     (if label_col \<in> set cols then py_str e (r label_col) else [])"

definition logo_path_of :: "env \<Rightarrow> string list \<Rightarrow> string \<Rightarrow> row \<Rightarrow> string" where
  "logo_path_of e cols label_col r =
     (let logo_key = (if ''Tm'' \<in> set cols then py_str e (r ''Tm'')
                      else label_text_of e cols label_col r)
      in ''data/logos/'' @ logo_key @ ''.png'')"

text \<open>The body of the loop over the rows, lines 66 to 91.\<close>

definition draw_team_row :: "env \<Rightarrow> string list \<Rightarrow> string \<Rightarrow> string \<Rightarrow> string \<Rightarrow> row \<Rightarrow> artist list" where
  "draw_team_row e cols x_col y_col label_col r =
     (let x = r x_col; y = r y_col;
          label_text = label_text_of e cols label_col r;
          marker = (case getImage e (logo_path_of e cols label_col r) 55 of
                      Some img_obj \<Rightarrow> Logo img_obj x y
                    | None \<Rightarrow> Dot x y)
      in [marker, Label (clean_label label_text) x y])"

subsection \<open>Filtering, statistics and axis limits\<close>

text \<open>\<^verbatim>\<open>df.dropna(subset=...)\<close>: a name that is not a column raises \<^verbatim>\<open>KeyError\<close>.\<close>

definition dropna :: "string list \<Rightarrow> frame \<Rightarrow> py_error + frame" where
  "dropna names df =
     (if list_all (\<lambda>c. c \<in> set (columns df)) names
      then Inr (df\<lparr>rows := filter (\<lambda>r. list_all (\<lambda>c. r c \<noteq> NaN) names) (rows df)\<rparr>)
      else Inl KeyError)"

text \<open>\<^verbatim>\<open>margin = std * k\<close> and the pair given to \<^verbatim>\<open>set_xlim\<close> or \<^verbatim>\<open>set_ylim\<close>:
  \<^verbatim>\<open>(min - margin, max + margin)\<close>.\<close>

definition margin :: "real \<Rightarrow> real list \<Rightarrow> real option" where
  "margin k vs = nan_times (pd_std vs) k"

definition axis_limits :: "real \<Rightarrow> real list \<Rightarrow> real option \<times> real option" where
  "axis_limits k vs = (nan_minus (pd_min vs) (margin k vs), nan_plus (pd_max vs) (margin k vs))"

text \<open>\<^verbatim>\<open>if invert: ax.invert_axis()\<close>: the limits set before change places.\<close>

definition invert_if :: "bool \<Rightarrow> 'a \<times> 'a \<Rightarrow> 'a \<times> 'a" where
  "invert_if invert ends = (if invert then (snd ends, fst ends) else ends)"

text \<open>\<^verbatim>\<open>ax.set_xlim\<close> and \<^verbatim>\<open>ax.set_ylim\<close>: matplotlib raises \<^verbatim>\<open>ValueError\<close> when a
  limit is \<open>NaN\<close>.\<close>

definition set_lim :: "real option \<times> real option \<Rightarrow> py_error + real option \<times> real option" where
  "set_lim ends = (if fst ends = None \<or> snd ends = None then Inl ValueError else Inr ends)"

record chart =
  title :: string
  xlabel :: string
  ylabel :: string
  artists :: "artist list"
  vline :: "real option"
  hline :: "real option"
  x_percent :: bool
  y_percent :: bool
  xlim :: "real option \<times> real option"
  ylim :: "real option \<times> real option"

text \<open>Lines 16 to 60: the frame the chart is drawn from, \<^verbatim>\<open>plot_df\<close>. \<open>csv\<close> and
  \<open>secondary\<close> are the frames read from the files.\<close>

definition filtered_dataset ::
  "frame \<Rightarrow> string \<Rightarrow> string \<Rightarrow> frame option \<Rightarrow> string option \<Rightarrow> py_error + frame" where
  "filtered_dataset csv x_col y_col secondary join_key =
     (case load_and_join csv secondary join_key of
        Inl err \<Rightarrow> Inl err
      | Inr joined \<Rightarrow> dropna [x_col, y_col] (normalize_axes x_col y_col joined))"

text \<open>The whole function.\<close>

definition create_nfl_scatter_plot ::
  "env \<Rightarrow> frame \<Rightarrow> string \<Rightarrow> string \<Rightarrow> frame option \<Rightarrow> string option \<Rightarrow> string option
     \<Rightarrow> string \<Rightarrow> string option \<Rightarrow> string option \<Rightarrow> bool \<Rightarrow> bool \<Rightarrow> py_error + chart" where
  "create_nfl_scatter_plot e csv x_col y_col secondary join_key title_arg label_col
       x_label y_label invert_x invert_y =
     (let final_x_label = (if truthy x_label then the x_label else x_col);
          final_y_label = (if truthy y_label then the y_label else y_col);
          final_title = (if truthy title_arg then the title_arg
                         else final_x_label @ '' vs '' @ final_y_label)
      in case filtered_dataset csv x_col y_col secondary join_key of
           Inl err \<Rightarrow> Inl err
         | Inr plot_df \<Rightarrow>
      (case series_nums (column plot_df x_col) of
           Inl err \<Rightarrow> Inl err
         | Inr xs \<Rightarrow>
      (case series_nums (column plot_df y_col) of
           Inl err \<Rightarrow> Inl err
         | Inr ys \<Rightarrow>
      (case set_lim (axis_limits (1 / 2) xs) of
           Inl err \<Rightarrow> Inl err
         | Inr x_limits \<Rightarrow>
      (case set_lim (axis_limits (1 / 2) ys) of
           Inl err \<Rightarrow> Inl err
         | Inr y_limits \<Rightarrow>
             Inr \<lparr>title = final_title,
                  xlabel = final_x_label,
                  ylabel = final_y_label,
                  artists = concat (map (draw_team_row e (columns plot_df) x_col y_col label_col)
                                        (rows plot_df)),
                  vline = pd_mean xs,
                  hline = pd_mean ys,
                  x_percent = nan_le (pd_max xs) 1,
                  y_percent = nan_le (pd_max ys) 1,
                  xlim = invert_if invert_x x_limits,
                  ylim = invert_if invert_y y_limits\<rparr>)))))"

section \<open>The quarterback chart: \<^verbatim>\<open>create_qb_plot\<close>\<close>

text \<open>The frame is the one built from the JSON records and the column names, after the
  player names are shortened in line 19.\<close>

subsection \<open>Numeric coercion (lines 21 to 27)\<close>

definition percent_cols :: "string list" where
  "percent_cols = [''Scramble %'', ''Sack %'', ''Success %'', ''Comp %'']"

text \<open>\<^verbatim>\<open>pd.to_numeric(..., errors='coerce')\<close> on one cell: a text that is empty or denotes
  no number becomes \<open>NaN\<close>.\<close>

fun to_numeric :: "env \<Rightarrow> cell \<Rightarrow> cell" where
  "to_numeric e (Str s) =
     (if s = [] then NaN else (case number_of e s of None \<Rightarrow> NaN | Some v \<Rightarrow> Num v))"
| "to_numeric e c = c"

text \<open>\<^verbatim>\<open>s.rstrip('%')\<close>.\<close>

definition rstrip :: "char \<Rightarrow> string \<Rightarrow> string" where
  "rstrip d s = rev (dropWhile (\<lambda>c. c = d) (rev s))"

text \<open>A percentage column, on one cell:
  \<^verbatim>\<open>astype(str).str.rstrip('%').replace('', np.nan).astype(float) / 100.0\<close>.
  \<^verbatim>\<open>astype(float)\<close> raises \<^verbatim>\<open>ValueError\<close> on a text that denotes no number. A number
  goes through its own text and comes back unchanged.\<close>

fun percent_cell :: "env \<Rightarrow> cell \<Rightarrow> py_error + cell" where
  "percent_cell e (Str s) =
     (let t = rstrip CHR ''%'' s
      in if t = [] then Inr NaN
         else (case number_of e t of
                 None \<Rightarrow> Inl ValueError
               | Some v \<Rightarrow> Inr (Num (v / 100))))"
| "percent_cell e (Num v) = Inr (Num (v / 100))"
| "percent_cell e NaN = Inr NaN"

fun percent_column :: "env \<Rightarrow> string \<Rightarrow> row list \<Rightarrow> py_error + row list" where
  "percent_column e col [] = Inr []"
| "percent_column e col (r # rs) =
     (case percent_cell e (r col) of
        Inl err \<Rightarrow> Inl err
      | Inr v \<Rightarrow>
          (case percent_column e col rs of
             Inl err \<Rightarrow> Inl err
           | Inr rs' \<Rightarrow> Inr (r(col := v) # rs')))"

text \<open>\<^verbatim>\<open>for col in df.columns: ...\<close>\<close>

fun coerce_columns :: "env \<Rightarrow> string list \<Rightarrow> row list \<Rightarrow> py_error + row list" where
  "coerce_columns e [] rs = Inr rs"
| "coerce_columns e (col # cols) rs =
     (if col \<in> set [''Player Name'', ''Season'', ''Team''] then coerce_columns e cols rs
      else if col \<in> set percent_cols then
        (case percent_column e col rs of
           Inl err \<Rightarrow> Inl err
         | Inr rs' \<Rightarrow> coerce_columns e cols rs')
      else coerce_columns e cols (map (\<lambda>r. r(col := to_numeric e (r col))) rs))"

text \<open>The columns that line 27 coerces: neither one of the three text columns nor a
  percentage column.\<close>

definition plain_numeric :: "string \<Rightarrow> bool" where
  "plain_numeric c = (c \<notin> set [''Player Name'', ''Season'', ''Team''] \<and> c \<notin> set percent_cols)"

subsection \<open>The minimum-sample filter (line 29)\<close>

fun cell_ge :: "cell \<Rightarrow> real \<Rightarrow> bool" where
  "cell_ge (Num v) k = (v \<ge> k)"
| "cell_ge c k = False"

text \<open>\<^verbatim>\<open>df[df['Plays'] >= min_plays]\<close>: no such column raises \<^verbatim>\<open>KeyError\<close>, and comparing
  a text with a number raises \<^verbatim>\<open>TypeError\<close>.\<close>

definition min_plays_filter :: "real \<Rightarrow> frame \<Rightarrow> py_error + frame" where
  "min_plays_filter min_plays df =
     (if ''Plays'' \<notin> set (columns df) then Inl KeyError
      else if list_ex is_text (column df ''Plays'') then Inl TypeError
      else Inr (df\<lparr>rows := filter (\<lambda>r. cell_ge (r ''Plays'') min_plays) (rows df)\<rparr>))"

subsection \<open>Markers and labels (lines 43 to 69)\<close>

text \<open>\<^verbatim>\<open>getImage\<close> of the quarterback chart has no \<^verbatim>\<open>try\<close>: an exception raised while
  the file is opened, decoded or resized leaves the function.\<close>

definition getImage_qb :: "env \<Rightarrow> string \<Rightarrow> nat \<Rightarrow> py_error + offset_image option" where
  "getImage_qb e path zoom_size =
     (if file_at e path = NoFile then Inr None
      else (case load_logo (file_at e path) zoom_size of
              Inl err \<Rightarrow> Inl err
            | Inr img \<Rightarrow> Inr (Some img)))"

text \<open>Line 57: the path of a player's logo.\<close>

definition qb_logo_path :: "env \<Rightarrow> row \<Rightarrow> string" where
  "qb_logo_path e r = ''data/logos/'' @ py_str e (r ''Player Name'') @ ''.png''"

text \<open>The body of the loop over the rows, lines 56 to 69: the logo when there is one, and
  the label. A player name that is no text has no \<^verbatim>\<open>split\<close> (\<^verbatim>\<open>AttributeError\<close>).\<close>

definition draw_qb_row :: "env \<Rightarrow> string list \<Rightarrow> string \<Rightarrow> string \<Rightarrow> row \<Rightarrow> py_error + artist list" where
  "draw_qb_row e cols x_axis y_axis r =
     (let x = r x_axis; y = r y_axis
      in if ''Player Name'' \<notin> set cols then Inl KeyError
         else
           (case getImage_qb e (qb_logo_path e r) 38 of
              Inl err \<Rightarrow> Inl err
            | Inr img_obj \<Rightarrow>
                (let marker = (case img_obj of Some img \<Rightarrow> [Logo img x y] | None \<Rightarrow> [])
                 in case r ''Player Name'' of
                      Str s \<Rightarrow>
                        (case qb_label s of
                           Inl err \<Rightarrow> Inl err
                         | Inr last_name \<Rightarrow> Inr (marker @ [Label last_name x y]))
                    | _ \<Rightarrow> Inl AttributeError)))"

text \<open>The loop stops at the first exception.\<close>

fun draw_qb_rows :: "env \<Rightarrow> string list \<Rightarrow> string \<Rightarrow> string \<Rightarrow> row list \<Rightarrow> py_error + artist list" where
  "draw_qb_rows e cols x_axis y_axis [] = Inr []"
| "draw_qb_rows e cols x_axis y_axis (r # rs) =
     (case draw_qb_row e cols x_axis y_axis r of
        Inl err \<Rightarrow> Inl err
      | Inr drawn \<Rightarrow>
          (case draw_qb_rows e cols x_axis y_axis rs of
             Inl err \<Rightarrow> Inl err
           | Inr others \<Rightarrow> Inr (drawn @ others)))"

text \<open>\<^verbatim>\<open>df_plot[x_axis]\<close> followed by a reduction.\<close>

definition axis_nums :: "frame \<Rightarrow> string \<Rightarrow> py_error + real list" where
  "axis_nums df col =
     (if col \<in> set (columns df) then series_nums (column df col) else Inl KeyError)"

text \<open>Lines 21 to 29: the frame the chart is drawn from, \<^verbatim>\<open>df_plot\<close>. \<open>data\<close> is the
  frame described above.\<close>

definition qb_filtered :: "env \<Rightarrow> frame \<Rightarrow> real \<Rightarrow> py_error + frame" where
  "qb_filtered e data min_plays =
     (case coerce_columns e (columns data) (rows data) of
        Inl err \<Rightarrow> Inl err
      | Inr coerced \<Rightarrow> min_plays_filter min_plays (data\<lparr>rows := coerced\<rparr>))"

text \<open>The whole function.\<close>

definition create_qb_plot ::
  "env \<Rightarrow> frame \<Rightarrow> string \<Rightarrow> string \<Rightarrow> real \<Rightarrow> string option \<Rightarrow> py_error + chart" where
  "create_qb_plot e data x_axis y_axis min_plays title_arg =
     (case qb_filtered e data min_plays of
        Inl err \<Rightarrow> Inl err
      | Inr df_plot \<Rightarrow>
     (case axis_nums df_plot x_axis of
        Inl err \<Rightarrow> Inl err
      | Inr xs \<Rightarrow>
     (case axis_nums df_plot y_axis of
        Inl err \<Rightarrow> Inl err
      | Inr ys \<Rightarrow>
     (case draw_qb_rows e (columns df_plot) x_axis y_axis (rows df_plot) of
        Inl err \<Rightarrow> Inl err
      | Inr drawn \<Rightarrow>
     (case set_lim (axis_limits (2 / 5) xs) of
        Inl err \<Rightarrow> Inl err
      | Inr x_limits \<Rightarrow>
     (case set_lim (axis_limits (2 / 5) ys) of
        Inl err \<Rightarrow> Inl err
      | Inr y_limits \<Rightarrow>
          Inr \<lparr>title = (if truthy title_arg then the title_arg
                        else x_axis @ '' vs '' @ y_axis),
               xlabel = x_axis,
               ylabel = y_axis,
               artists = drawn,
               vline = pd_mean xs,
               hline = pd_mean ys,
               x_percent = (x_axis \<in> set percent_cols),
               y_percent = (y_axis \<in> set percent_cols),
               xlim = x_limits,
               ylim = y_limits\<rparr>))))))"

section \<open>Concrete inputs\<close>

text \<open>A frame whose column \<open>X\<close> holds yardage (mean 200), one whose axes are a column on
  the 0 to 100 scale (\<open>X\<close>, mean 20) and a column of fractions (\<open>Y\<close>, mean 0.5), and the
  same with one value of \<open>Y\<close> missing.\<close>

definition yards_frame :: frame where
  "yards_frame =
     \<lparr>columns = [''Tm'', ''X''],
      rows = [row_of [(''Tm'', Str ''DAL''), (''X'', Num 150)],
              row_of [(''Tm'', Str ''NYG''), (''X'', Num 250)]]\<rparr>"

definition percent_frame :: frame where
  "percent_frame =
     \<lparr>columns = [''Tm'', ''X'', ''Y'', ''Z''],
      rows = [row_of [(''Tm'', Str ''Dallas Cowboys''), (''X'', Num 10), (''Y'', Num (9 / 10)), (''Z'', Num 7)],
              row_of [(''Tm'', Str ''DAL''), (''X'', Num 30), (''Y'', Num (1 / 10)), (''Z'', Num 9)]]\<rparr>"

text \<open>A reader of unsigned decimal numerals, for the concrete environment.\<close>

definition is_digit :: "char \<Rightarrow> bool" where
  "is_digit c = (48 \<le> (of_char c :: nat) \<and> (of_char c :: nat) \<le> 57)"

definition digits_number :: "string \<Rightarrow> real option" where
  "digits_number s =
     (if s \<noteq> [] \<and> list_all is_digit s
      then Some (real (foldl (\<lambda>n c. 10 * n + (of_char c - 48)) 0 s))
      else None)"

text \<open>An environment with two readable logos and two files that cannot be decoded.\<close>

definition demo_env :: env where
  "demo_env =
     \<lparr>file_at = (\<lambda>p. if p = ''data/logos/DAL.png'' then Picture 200 100
                     else if p = ''data/logos/NYG.png'' then Unreadable
                     else if p = ''data/logos/Mahomes.png'' then Picture 100 100
                     else if p = ''data/logos/Stroud.png'' then Unreadable
                     else NoFile),
      text_of = (\<lambda>v. ''0.0''),
      number_of = digits_number\<rparr>"

text \<open>A team frame of four rows, the third without a value of \<open>Y\<close>, and the three rows
  that have both values.\<close>

definition team_row1 :: row where
  "team_row1 = row_of [(''Tm'', Str ''DAL''), (''X'', Num 0), (''Y'', Num (1 / 5))]"

definition team_row2 :: row where
  "team_row2 = row_of [(''Tm'', Str ''NYG''), (''X'', Num (1 / 4)), (''Y'', Num (2 / 5))]"

definition team_row3 :: row where
  "team_row3 = row_of [(''Tm'', Str ''SEA''), (''X'', Num (1 / 2)), (''Y'', NaN)]"

definition team_row4 :: row where
  "team_row4 = row_of [(''Tm'', Str ''PHI''), (''X'', Num (1 / 2)), (''Y'', Num (3 / 5))]"

definition team_frame :: frame where
  "team_frame = \<lparr>columns = [''Tm'', ''X'', ''Y''],
                  rows = [team_row1, team_row2, team_row3, team_row4]\<rparr>"

definition team_plot_frame :: frame where
  "team_plot_frame = \<lparr>columns = [''Tm'', ''X'', ''Y''],
                       rows = [team_row1, team_row2, team_row4]\<rparr>"

text \<open>A team frame with a single row.\<close>

definition single_frame :: frame where
  "single_frame = \<lparr>columns = [''Tm'', ''X'', ''Y''], rows = [team_row2]\<rparr>"

text \<open>A quarterback frame as the JSON records give it, every value a text: the second row
  has no value of \<open>EPA/Play\<close>, the third no value of \<open>Success %\<close>, the fourth no value
  of \<open>Plays\<close>, the fifth a value of \<open>Plays\<close> that is no number, and the sixth fewer
  plays than the threshold 100.\<close>

definition qb_row :: "string \<Rightarrow> string \<Rightarrow> string \<Rightarrow> string \<Rightarrow> string \<Rightarrow> row" where
  "qb_row player team plays epa success =
     row_of [(''Player Name'', Str player), (''Team'', Str team), (''Plays'', Str plays),
             (''EPA/Play'', Str epa), (''Success %'', Str success)]"

definition qb_frame :: frame where
  "qb_frame =
     \<lparr>columns = [''Player Name'', ''Team'', ''Plays'', ''EPA/Play'', ''Success %''],
      rows = [qb_row ''Mahomes'' ''KC'' ''300'' ''0'' ''40%'',
              qb_row ''Allen'' ''BUF'' ''250'' '''' ''50%'',
              qb_row ''Burrow'' ''CIN'' ''120'' ''4'' [],
              qb_row ''Hurts'' ''PHI'' '''' ''6'' ''55%'',
              qb_row ''Jackson'' ''BAL'' ''n/a'' ''7'' ''45%'',
              qb_row ''Wilson'' ''NYJ'' ''50'' ''9'' ''30%'',
              qb_row ''Love'' ''GB'' ''200'' ''8'' ''70%'']\<rparr>"

text \<open>A quarterback frame whose second player has a logo file that cannot be decoded.\<close>

definition qb_frame_unreadable :: frame where
  "qb_frame_unreadable =
     \<lparr>columns = [''Player Name'', ''Team'', ''Plays'', ''EPA/Play'', ''Success %''],
      rows = [qb_row ''Mahomes'' ''KC'' ''300'' ''0'' ''40%'',
              qb_row ''Stroud'' ''HOU'' ''200'' ''8'' ''70%'']\<rparr>"

text \<open>A primary and a secondary team frame that share the key \<open>Tm\<close> and the column \<open>W\<close>;
  the secondary frame has no row for \<open>NYG\<close>.\<close>

definition primary_frame :: frame where
  "primary_frame =
     \<lparr>columns = [''Tm'', ''X'', ''W''],
      rows = [row_of [(''Tm'', Str ''DAL''), (''X'', Num (1 / 4)), (''W'', Num 7)],
              row_of [(''Tm'', Str ''NYG''), (''X'', Num (1 / 2)), (''W'', Num 3)],
              row_of [(''Tm'', Str ''PHI''), (''X'', Num (3 / 4)), (''W'', Num 11)]]\<rparr>"

definition secondary_frame :: frame where
  "secondary_frame =
     \<lparr>columns = [''Tm'', ''Y'', ''W''],
      rows = [row_of [(''Tm'', Str ''PHI''), (''Y'', Num (1 / 5)), (''W'', Num 6)],
              row_of [(''Tm'', Str ''DAL''), (''Y'', Num (2 / 5)), (''W'', Num 10)]]\<rparr>"

section \<open>Properties of the label rule\<close>

lemma split_on_free: "d \<notin> set w \<Longrightarrow> split_on d w = [w]"
  by (induction w) auto

lemma split_on_app: "d \<notin> set w \<Longrightarrow> split_on d (w @ d # rest) = w # split_on d rest"
  by (induction w) auto

text \<open>Splitting on a character undoes joining by it, whenever no joined string holds the
  character (the strings may be empty).\<close>

lemma split_on_join:
  "ws \<noteq> [] \<Longrightarrow> \<forall>w\<in>set ws. d \<notin> set w \<Longrightarrow> split_on d (join [d] ws) = ws"
  by (induction "[d]" ws rule: join.induct) (auto simp: split_on_free split_on_app)

lemma split_ws_from_word:
  "list_all (\<lambda>c. \<not> is_space c) w \<Longrightarrow>
   split_ws_from cur (w @ rest) = split_ws_from (cur @ w) rest"
  by (induction w arbitrary: cur) auto

lemma split_ws_join:
  "list_all is_word ws \<Longrightarrow> split_ws (join '' '' ws) = ws"
  unfolding split_ws_def
proof (induction "'' ''" ws rule: join.induct)
  case 1
  then show ?case by simp
next
  case (2 x)
  then show ?case
    using split_ws_from_word [of x "[]" "[]"] by (simp add: is_word_def)
next
  case (3 x y ys)
  have sp: "is_space CHR '' ''"
    by (simp add: is_space_def)
  from 3 have x: "is_word x"
    by simp
  then have "split_ws_from [] (x @ '' '' @ join '' '' (y # ys))
      = split_ws_from x ('' '' @ join '' '' (y # ys))"
    using split_ws_from_word [of x "[]"] by (simp add: is_word_def)
  also have "\<dots> = x # split_ws_from [] (join '' '' (y # ys))"
    using x sp by (simp add: is_word_def)
  finally show ?case
    using 3 by simp
qed

lemma word_no_space: "is_word w \<Longrightarrow> CHR '' '' \<notin> set w"
  by (auto simp: is_word_def list_all_iff is_space_def)

lemma clean_label_join:
  assumes "ws \<noteq> []" and "\<forall>w\<in>set ws. CHR '' '' \<notin> set w"
  shows "clean_label (join '' '' ws)
    = (if length ws > 1 then join '' '' (drop 1 ws) else join '' '' ws)"
  using split_on_join [OF assms] by (simp add: clean_label_def)

text \<open>
  Claim C3, as the code has it. For every raw label made of one or more words (non-empty,
  free of whitespace) separated by single spaces, the whitespace tokens of the label are
  these words, and
  \<^item> the team chart's label is the label without its first word when there is more than
    one word, and the label unchanged when there is one: on these labels it is the label
    the specification describes;
  \<^item> the quarterback chart's label is the last word only, which is the same label when
    there are at most two words.
\<close>

theorem label_rule_on_words:
  assumes "ws \<noteq> []" and "list_all is_word ws"
  shows "split_ws (join '' '' ws) = ws
    \<and> clean_label (join '' '' ws)
        = (if length ws > 1 then join '' '' (drop 1 ws) else join '' '' ws)
    \<and> clean_label (join '' '' ws) = spec_clean_label (join '' '' ws)
    \<and> qb_label (join '' '' ws) = Inr (last ws)"
proof -
  have tokens: "split_ws (join '' '' ws) = ws"
    using assms(2) by (rule split_ws_join)
  have "\<forall>w\<in>set ws. CHR '' '' \<notin> set w"
    using assms(2) by (auto simp: list_all_iff dest: word_no_space)
  then have team: "clean_label (join '' '' ws)
      = (if length ws > 1 then join '' '' (drop 1 ws) else join '' '' ws)"
    using assms(1) by (rule clean_label_join [rotated])
  have spec: "spec_clean_label (join '' '' ws)
      = (if length ws > 1 then join '' '' (drop 1 ws) else join '' '' ws)"
    by (simp add: spec_clean_label_def tokens)
  have "qb_label (join '' '' ws)
      = (case ws of [] \<Rightarrow> Inl IndexError | t # ts \<Rightarrow> Inr (last (t # ts)))"
    by (simp only: qb_label_def tokens)
  then have qb: "qb_label (join '' '' ws) = Inr (last ws)"
    using assms(1) by (cases ws) simp_all
  from tokens team spec qb show ?thesis
    by simp
qed

theorem label_rule_on_words_witness:
  "[''Dallas'', ''Cowboys''] \<noteq> [] \<and> list_all is_word [''Dallas'', ''Cowboys'']
   \<and> split_ws ''Dallas Cowboys'' = [''Dallas'', ''Cowboys'']
   \<and> clean_label ''Dallas Cowboys'' = ''Cowboys''
   \<and> qb_label ''Dallas Cowboys'' = Inr ''Cowboys''"
proof -
  have w: "list_all is_word [''Dallas'', ''Cowboys'']"
    by (simp add: is_word_def is_space_def)
  show ?thesis
    using w label_rule_on_words [OF _ w] by simp
qed

text \<open>The claim as the specification words it fails on both charts: a one-word label
  with a trailing space loses its only word on the team chart, and a three-word name keeps
  only its last word on the quarterback chart.\<close>

theorem label_rule_counterexample:
  "clean_label ''DAL '' = [] \<and> spec_clean_label ''DAL '' = ''DAL ''
   \<and> clean_label ''DAL '' \<noteq> spec_clean_label ''DAL ''
   \<and> qb_label ''Patrick Mahomes II'' = Inr ''II''
   \<and> spec_clean_label ''Patrick Mahomes II'' = ''Mahomes II''
   \<and> qb_label ''Patrick Mahomes II'' \<noteq> Inr (spec_clean_label ''Patrick Mahomes II'')"
  by (simp add: clean_label_def spec_clean_label_def qb_label_def split_ws_def is_space_def)

section \<open>Properties of the percentage normalization\<close>

lemma column_percent_step_other:
  "c \<noteq> col \<Longrightarrow> column (percent_step col df) c = column df c"
  by (simp add: percent_step_def column_def)

lemma columns_percent_step: "columns (percent_step col df) = columns df"
  by (simp add: percent_step_def)

lemma column_percent_step_same:
  "column (percent_step col df) col =
     (if col \<in> set (columns df) \<and> is_numeric_dtype (column df col)
         \<and> nan_gt (pd_mean (nums (column df col))) 1
      then map div100 (column df col) else column df col)"
  by (simp add: percent_step_def column_def)

lemma nums_div100:
  "is_numeric_dtype cs \<Longrightarrow> nums (map div100 cs) = map (\<lambda>v. v / 100) (nums cs)"
  by (induction cs rule: nums.induct) (auto simp: is_numeric_dtype_def)

lemma numeric_div100: "is_numeric_dtype (map div100 cs) = is_numeric_dtype cs"
proof (induction cs)
  case Nil
  show ?case by simp
next
  case (Cons c cs)
  then show ?case
    by (cases c) (auto simp: is_numeric_dtype_def)
qed

lemma sum_list_div: "sum_list (map (\<lambda>v. v / k) vs) = sum_list vs / (k::real)"
  by (induction vs) (auto simp: add_divide_distrib)

lemma mean_div100:
  "is_numeric_dtype cs \<Longrightarrow>
   pd_mean (nums (map div100 cs)) = map_option (\<lambda>m. m / 100) (pd_mean (nums cs))"
  by (simp add: nums_div100 pd_mean_def sum_list_div)

text \<open>After one division the mean still exceeds 1 exactly when it exceeded 100 before.\<close>

lemma gt_mean_div100:
  "is_numeric_dtype cs \<Longrightarrow>
   nan_gt (pd_mean (nums (map div100 cs))) 1 = nan_gt (pd_mean (nums cs)) 100"
  by (cases "pd_mean (nums cs)") (auto simp: mean_div100)

lemma percent_step_noop:
  "\<not> nan_gt (pd_mean (nums (column df col))) 1 \<Longrightarrow> percent_step col df = df"
  by (simp add: percent_step_def)

lemma column_percent_twice:
  "column (percent_step col (percent_step col df)) col =
     (if col \<in> set (columns df) \<and> is_numeric_dtype (column df col)
         \<and> nan_gt (pd_mean (nums (column df col))) 1
      then (if nan_gt (pd_mean (nums (column df col))) 100
            then map (div100 \<circ> div100) (column df col)
            else map div100 (column df col))
      else column df col)"
  by (simp add: column_percent_step_same columns_percent_step gt_mean_div100 numeric_div100)


text \<open>
  Claim C1, as the code has it. The loop over \<^verbatim>\<open>[x_col, y_col]\<close> keeps the column
  names, changes no column other than the two declared axes, and leaves a declared axis
  unchanged unless it is a column of the frame, numeric, with a mean above 1. Such an axis
  has every value divided by 100: once when the two axes are different columns, and once
  for each of its two declarations when the same column is declared for both axes, the
  second time only if the mean after the first division still exceeds 1 (the mean was
  above 100).
\<close>

theorem percent_heuristic_axes:
  "columns (normalize_axes x_col y_col df) = columns df
   \<and> (c \<noteq> x_col \<and> c \<noteq> y_col \<longrightarrow> column (normalize_axes x_col y_col df) c = column df c)
   \<and> (c = x_col \<or> c = y_col \<longrightarrow>
        column (normalize_axes x_col y_col df) c =
          (if c \<in> set (columns df) \<and> is_numeric_dtype (column df c)
              \<and> nan_gt (pd_mean (nums (column df c))) 1
           then (if x_col = y_col \<and> nan_gt (pd_mean (nums (column df c))) 100
                 then map (div100 \<circ> div100) (column df c)
                 else map div100 (column df c))
           else column df c))"
proof -
  have unfold: "normalize_axes x_col y_col df = percent_step y_col (percent_step x_col df)"
    by (simp add: normalize_axes_def)
  have cols: "columns (normalize_axes x_col y_col df) = columns df"
    by (simp add: unfold columns_percent_step)
  have other: "column (normalize_axes x_col y_col df) c = column df c"
    if "c \<noteq> x_col" "c \<noteq> y_col"
    using that by (simp add: unfold column_percent_step_other)
  have axis: "column (normalize_axes x_col y_col df) c =
          (if c \<in> set (columns df) \<and> is_numeric_dtype (column df c)
              \<and> nan_gt (pd_mean (nums (column df c))) 1
           then (if x_col = y_col \<and> nan_gt (pd_mean (nums (column df c))) 100
                 then map (div100 \<circ> div100) (column df c)
                 else map div100 (column df c))
           else column df c)"
    if "c = x_col \<or> c = y_col"
  proof (cases "x_col = y_col")
    case True
    with that have "c = x_col" "y_col = x_col" by auto
    then show ?thesis
      by (simp add: normalize_axes_def column_percent_twice)
  next
    case False
    from that show ?thesis
    proof
      assume "c = x_col"
      with False have "column (normalize_axes x_col y_col df) c = column (percent_step x_col df) x_col"
        by (simp add: unfold column_percent_step_other)
      then show ?thesis
        using False \<open>c = x_col\<close> by (simp add: column_percent_step_same)
    next
      assume "c = y_col"
      with False have "column (percent_step x_col df) y_col = column df y_col"
        by (simp add: column_percent_step_other)
      then show ?thesis
        using False \<open>c = y_col\<close>
        by (simp add: unfold column_percent_step_same columns_percent_step)
    qed
  qed
  from cols other axis show ?thesis by blast
qed

text \<open>The columns of the concrete frames.\<close>

lemma percent_frame_X: "column percent_frame ''X'' = [Num 10, Num 30]"
  by (simp add: percent_frame_def column_def row_of_def)
lemma percent_frame_Y: "column percent_frame ''Y'' = [Num (9 / 10), Num (1 / 10)]"
  by (simp add: percent_frame_def column_def row_of_def)
lemma percent_frame_Z: "column percent_frame ''Z'' = [Num 7, Num 9]"
  by (simp add: percent_frame_def column_def row_of_def)
lemma yards_frame_columns: "columns yards_frame = [''Tm'', ''X'']"
  by (simp add: yards_frame_def)
lemma percent_frame_columns: "columns percent_frame = [''Tm'', ''X'', ''Y'', ''Z'']"
  by (simp add: percent_frame_def)
lemma yards_frame_X: "column yards_frame ''X'' = [Num 150, Num 250]"
  by (simp add: yards_frame_def column_def row_of_def)

theorem percent_heuristic_axes_witness:
  "column (normalize_axes ''X'' ''Y'' percent_frame) ''X'' = [Num (1 / 10), Num (3 / 10)]
   \<and> column (normalize_axes ''X'' ''Y'' percent_frame) ''Y'' = [Num (9 / 10), Num (1 / 10)]
   \<and> column (normalize_axes ''X'' ''Y'' percent_frame) ''Z'' = [Num 7, Num 9]"
  using percent_heuristic_axes [of "''X''" "''Y''" percent_frame "''X''"]
    percent_heuristic_axes [of "''X''" "''Y''" percent_frame "''Y''"]
    percent_heuristic_axes [of "''X''" "''Y''" percent_frame "''Z''"]
  by (simp add: percent_frame_X percent_frame_Y percent_frame_Z is_numeric_dtype_def pd_mean_def
      percent_frame_columns)

text \<open>A column declared for both axes whose mean exceeds 100 does not end up divided by
  100: it is divided twice.\<close>

theorem percent_heuristic_counterexample:
  "column yards_frame ''X'' = [Num 150, Num 250]
   \<and> column (normalize_axes ''X'' ''X'' yards_frame) ''X'' = [Num (3 / 200), Num (1 / 40)]
   \<and> column (normalize_axes ''X'' ''X'' yards_frame) ''X'' \<noteq> map div100 (column yards_frame ''X'')"
  by (simp add: normalize_axes_def column_percent_twice yards_frame_X is_numeric_dtype_def
      pd_mean_def yards_frame_columns)

text \<open>
  Claim C2, as the code has it. The conversion step changes nothing in a frame whose axis
  column has no mean above 1, so a column once converted from a mean of at most 100 is not
  converted again. The step does not record what it has converted: a numeric column whose
  mean exceeds 100 still has a mean above 1 after one division, and a second step divides
  every value by 100 again.
\<close>

theorem percent_step_fractional:
  "(\<not> nan_gt (pd_mean (nums (column df col))) 1 \<longrightarrow> percent_step col df = df)
   \<and> (\<not> nan_gt (pd_mean (nums (column df col))) 100 \<longrightarrow>
        percent_step col (percent_step col df) = percent_step col df)
   \<and> (col \<in> set (columns df) \<and> is_numeric_dtype (column df col)
        \<and> nan_gt (pd_mean (nums (column df col))) 100 \<longrightarrow>
        column (percent_step col (percent_step col df)) col
          = map (div100 \<circ> div100) (column df col))"
proof -
  have once: "percent_step col df = df" if "\<not> nan_gt (pd_mean (nums (column df col))) 1"
    using that by (rule percent_step_noop)
  have again: "percent_step col (percent_step col df) = percent_step col df"
    if le: "\<not> nan_gt (pd_mean (nums (column df col))) 100"
  proof (cases "col \<in> set (columns df) \<and> is_numeric_dtype (column df col)
        \<and> nan_gt (pd_mean (nums (column df col))) 1")
    case True
    then have "column (percent_step col df) col = map div100 (column df col)"
      by (simp add: column_percent_step_same)
    then have "\<not> nan_gt (pd_mean (nums (column (percent_step col df) col))) 1"
      using True le by (simp add: gt_mean_div100)
    then show ?thesis by (rule percent_step_noop)
  next
    case False
    then have "percent_step col df = df"
      by (auto simp: percent_step_def)
    then show ?thesis by simp
  qed
  have twice: "column (percent_step col (percent_step col df)) col
          = map (div100 \<circ> div100) (column df col)"
    if "col \<in> set (columns df) \<and> is_numeric_dtype (column df col)
        \<and> nan_gt (pd_mean (nums (column df col))) 100"
  proof -
    from that have "nan_gt (pd_mean (nums (column df col))) 1"
      by (cases "pd_mean (nums (column df col))") auto
    with that show ?thesis
      by (simp add: column_percent_twice)
  qed
  from once again twice show ?thesis by blast
qed

theorem percent_step_fractional_witness:
  "percent_step ''Y'' percent_frame = percent_frame
   \<and> percent_step ''X'' (percent_step ''X'' percent_frame) = percent_step ''X'' percent_frame
   \<and> column (percent_step ''X'' (percent_step ''X'' yards_frame)) ''X'' = [Num (3 / 200), Num (1 / 40)]"
  using percent_step_fractional [of percent_frame "''Y''"]
    percent_step_fractional [of percent_frame "''X''"]
    percent_step_fractional [of yards_frame "''X''"]
  by (simp add: percent_frame_X percent_frame_Y yards_frame_X is_numeric_dtype_def pd_mean_def
      yards_frame_columns)

text \<open>Values divided by 100 twice: the converted yardage column is numeric with mean 2,
  and the second step, which the loop runs when both axes name this column, divides it
  again.\<close>

theorem divided_twice_counterexample:
  "column (percent_step ''X'' yards_frame) ''X'' = map div100 (column yards_frame ''X'')
   \<and> is_numeric_dtype (column (percent_step ''X'' yards_frame) ''X'')
   \<and> column (percent_step ''X'' (percent_step ''X'' yards_frame)) ''X''
       \<noteq> column (percent_step ''X'' yards_frame) ''X''
   \<and> column (normalize_axes ''X'' ''X'' yards_frame) ''X''
       = map (div100 \<circ> div100) (column yards_frame ''X'')"
  by (simp add: normalize_axes_def column_percent_twice column_percent_step_same yards_frame_X
      is_numeric_dtype_def pd_mean_def yards_frame_columns columns_percent_step)

section \<open>Properties of the statistics and the axis limits\<close>

lemma pd_min_Min: "vs \<noteq> [] \<Longrightarrow> pd_min vs = Some (Min (set vs))"
  by (cases vs) (simp_all add: pd_min_def Min.set_eq_fold [symmetric])

lemma pd_max_Max: "vs \<noteq> [] \<Longrightarrow> pd_max vs = Some (Max (set vs))"
  by (cases vs) (simp_all add: pd_max_def Max.set_eq_fold [symmetric])

lemma pd_std_nonneg:
  assumes "pd_std vs = Some s"
  shows "0 \<le> s"
proof -
  have n: "2 \<le> length vs"
    using assms by (simp add: pd_std_def split: if_splits)
  have "0 \<le> sum_list (map (\<lambda>v. (v - sum_list vs / real (length vs))\<^sup>2) vs)"
    by (rule sum_list_nonneg) auto
  moreover have "0 \<le> real (length vs - 1)"
    by simp
  ultimately have "0 \<le> sum_list (map (\<lambda>v. (v - sum_list vs / real (length vs))\<^sup>2) vs)
      / real (length vs - 1)"
    by (rule divide_nonneg_nonneg)
  then show ?thesis
    using assms n by (auto simp: pd_std_def)
qed

lemma pd_std_few: "length vs < 2 \<Longrightarrow> pd_std vs = None"
  by (simp add: pd_std_def)

lemma pd_std_some: "2 \<le> length vs \<Longrightarrow> \<exists>s. pd_std vs = Some s"
  by (simp add: pd_std_def)

lemma axis_limits_bounds:
  assumes "2 \<le> length vs" and "0 \<le> k"
  shows "\<exists>s. pd_std vs = Some s \<and> 0 \<le> s \<and> margin k vs = Some (s * k)
    \<and> axis_limits k vs = (Some (Min (set vs) - s * k), Some (Max (set vs) + s * k))
    \<and> (\<forall>v\<in>set vs. Min (set vs) - s * k \<le> v \<and> v \<le> Max (set vs) + s * k)"
proof -
  from assms(1) obtain s where s: "pd_std vs = Some s"
    using pd_std_some by blast
  then have s0: "0 \<le> s"
    by (rule pd_std_nonneg)
  from assms(1) have ne: "vs \<noteq> []"
    by auto
  have m: "margin k vs = Some (s * k)"
    by (simp add: margin_def nan_times_def s)
  have lim: "axis_limits k vs = (Some (Min (set vs) - s * k), Some (Max (set vs) + s * k))"
    by (simp add: axis_limits_def m pd_min_Min [OF ne] pd_max_Max [OF ne])
  have "Min (set vs) - s * k \<le> v \<and> v \<le> Max (set vs) + s * k" if "v \<in> set vs" for v
  proof -
    have "Min (set vs) \<le> v" "v \<le> Max (set vs)"
      using that by simp_all
    moreover have "0 \<le> s * k"
      using s0 assms(2) by simp
    ultimately show ?thesis
      by linarith
  qed
  with s s0 m lim show ?thesis
    by blast
qed

lemma axis_limits_few:
  "length vs < 2 \<Longrightarrow> margin k vs = None \<and> axis_limits k vs = (None, None)"
  by (cases "pd_min vs"; cases "pd_max vs") (simp_all add: axis_limits_def margin_def nan_times_def pd_std_few)

lemma set_lim_few: "length vs < 2 \<Longrightarrow> set_lim (axis_limits k vs) = Inl ValueError"
  by (simp add: set_lim_def axis_limits_few)

lemma set_lim_two: "2 \<le> length vs \<Longrightarrow> set_lim (axis_limits k vs) = Inr (axis_limits k vs)"
proof -
  assume n: "2 \<le> length vs"
  then obtain s where "pd_std vs = Some s"
    using pd_std_some by blast
  moreover from n have "vs \<noteq> []"
    by auto
  ultimately show ?thesis
    by (simp add: set_lim_def axis_limits_def margin_def nan_times_def pd_min_Min pd_max_Max)
qed

lemma set_lim_Inr: "set_lim ends = Inr limits \<Longrightarrow> limits = ends"
  by (simp add: set_lim_def split: if_splits)

lemma cells_are_nums:
  "NaN \<notin> set cs \<Longrightarrow> \<not> list_ex is_text cs \<Longrightarrow> cs = map Num (nums cs)"
  by (induction cs rule: nums.induct) auto

lemma length_nums_le: "length (nums cs) \<le> length cs"
  by (induction cs rule: nums.induct) auto

lemma dropna_rows:
  "dropna names df = Inr plot_df \<Longrightarrow>
   columns plot_df = columns df
   \<and> rows plot_df = filter (\<lambda>r. list_all (\<lambda>c. r c \<noteq> NaN) names) (rows df)"
  by (auto simp: dropna_def split: if_splits)

lemma dropna_no_nan:
  "dropna names df = Inr plot_df \<Longrightarrow> c \<in> set names \<Longrightarrow> NaN \<notin> set (column plot_df c)"
  by (fastforce simp: dropna_def column_def list_all_iff split: if_splits)

lemma series_nums_Inr: "series_nums cs = Inr vs \<Longrightarrow> vs = nums cs \<and> \<not> list_ex is_text cs"
  by (auto simp: series_nums_def split: if_splits)

lemma filtered_dataset_no_nan:
  "filtered_dataset csv x_col y_col secondary join_key = Inr plot_df \<Longrightarrow>
   NaN \<notin> set (column plot_df x_col) \<and> NaN \<notin> set (column plot_df y_col)"
  by (auto simp: filtered_dataset_def split: sum.splits dest: dropna_no_nan)

lemma team_chart_limits:
  assumes "filtered_dataset csv x_col y_col secondary join_key = Inr plot_df"
    and "create_nfl_scatter_plot e csv x_col y_col secondary join_key t label_col xl yl
           invert_x invert_y = Inr ch"
  shows "column plot_df x_col = map Num (nums (column plot_df x_col))
    \<and> column plot_df y_col = map Num (nums (column plot_df y_col))
    \<and> xlim ch = invert_if invert_x (axis_limits (1 / 2) (nums (column plot_df x_col)))
    \<and> ylim ch = invert_if invert_y (axis_limits (1 / 2) (nums (column plot_df y_col)))"
proof -
  from assms obtain xs ys where
    xs: "series_nums (column plot_df x_col) = Inr xs" and
    ys: "series_nums (column plot_df y_col) = Inr ys" and
    lim: "xlim ch = invert_if invert_x (axis_limits (1 / 2) xs)"
         "ylim ch = invert_if invert_y (axis_limits (1 / 2) ys)"
    by (auto simp: create_nfl_scatter_plot_def Let_def split: sum.splits dest!: set_lim_Inr)
  from xs ys lim filtered_dataset_no_nan [OF assms(1)] show ?thesis
    by (auto dest!: series_nums_Inr intro: cells_are_nums)
qed

lemma qb_chart_limits:
  assumes "qb_filtered e data min_plays = Inr df_plot"
    and "create_qb_plot e data x_axis y_axis min_plays t = Inr ch"
  shows "xlim ch = axis_limits (2 / 5) (nums (column df_plot x_axis))
    \<and> ylim ch = axis_limits (2 / 5) (nums (column df_plot y_axis))"
  using assms
  by (auto simp: create_qb_plot_def axis_nums_def series_nums_def
      split: sum.splits if_splits dest!: set_lim_Inr)

text \<open>Evaluations on the concrete inputs.\<close>

lemma sqrt_sixteenth: "sqrt (1 / 16) = 1 / 4"
  by (rule real_sqrt_unique) (simp_all add: power2_eq_square)

lemma sqrt_sixteen: "sqrt 16 = 4"
  by (rule real_sqrt_unique) simp_all

lemma std_quarters: "pd_std [0, 1 / 4, 1 / 2] = Some (1 / 4)"
  by (simp add: pd_std_def power2_eq_square sqrt_sixteenth)

lemma std_fours: "pd_std [0, 4, 8] = Some 4"
  by (simp add: pd_std_def power2_eq_square sqrt_sixteen)

lemma team_frame_filtered:
  "filtered_dataset team_frame ''X'' ''Y'' None None = Inr team_plot_frame"
  by (simp add: filtered_dataset_def load_and_join_def normalize_axes_def percent_step_def
      dropna_def team_frame_def team_plot_frame_def column_def is_numeric_dtype_def pd_mean_def
      team_row1_def team_row2_def team_row3_def team_row4_def row_of_def)

lemma team_plot_X: "column team_plot_frame ''X'' = [Num 0, Num (1 / 4), Num (1 / 2)]"
  by (simp add: team_plot_frame_def column_def team_row1_def team_row2_def team_row4_def row_of_def)

lemma team_plot_Y: "column team_plot_frame ''Y'' = [Num (1 / 5), Num (2 / 5), Num (3 / 5)]"
  by (simp add: team_plot_frame_def column_def team_row1_def team_row2_def team_row4_def row_of_def)

lemma team_chart_exists:
  "\<exists>ch. create_nfl_scatter_plot demo_env team_frame ''X'' ''Y'' None None None ''Tm'' None None
      ix iy = Inr ch"
  by (simp add: create_nfl_scatter_plot_def team_frame_filtered team_plot_X team_plot_Y
      series_nums_def Let_def set_lim_two)


lemma digits_number_simps:
  "digits_number ''300'' = Some 300" "digits_number ''250'' = Some 250"
  "digits_number ''120'' = Some 120" "digits_number ''200'' = Some 200"
  "digits_number ''50'' = Some 50" "digits_number ''n/a'' = None"
  "digits_number ''0'' = Some 0" "digits_number ''4'' = Some 4" "digits_number ''6'' = Some 6"
  "digits_number ''7'' = Some 7" "digits_number ''8'' = Some 8" "digits_number ''9'' = Some 9"
  "digits_number ''40'' = Some 40" "digits_number ''50'' = Some 50"
  "digits_number ''60'' = Some 60" "digits_number ''55'' = Some 55"
  "digits_number ''45'' = Some 45" "digits_number ''30'' = Some 30"
  "digits_number ''70'' = Some 70"
  by (simp_all add: digits_number_def is_digit_def)

lemma qb_frame_filtered:
  "\<exists>df. qb_filtered demo_env qb_frame 100 = Inr df
     \<and> columns df = [''Player Name'', ''Team'', ''Plays'', ''EPA/Play'', ''Success %'']
     \<and> column df ''Player Name'' = [Str ''Mahomes'', Str ''Allen'', Str ''Burrow'', Str ''Love'']
     \<and> column df ''Plays'' = [Num 300, Num 250, Num 120, Num 200]
     \<and> column df ''EPA/Play'' = [Num 0, NaN, Num 4, Num 8]
     \<and> column df ''Success %'' = [Num (2 / 5), Num (1 / 2), NaN, Num (7 / 10)]"
  by (simp add: qb_filtered_def qb_frame_def percent_cols_def min_plays_filter_def column_def
      qb_row_def row_of_def demo_env_def rstrip_def digits_number_simps)


lemma qb_chart_evaluated:
  "\<exists>ch df. create_qb_plot demo_env qb_frame ''EPA/Play'' ''Success %'' 100 None = Inr ch
     \<and> qb_filtered demo_env qb_frame 100 = Inr df
     \<and> column df ''EPA/Play'' = [Num 0, NaN, Num 4, Num 8]
     \<and> artists ch =
         [Logo (38, 38) (Num 0) (Num (2 / 5)), Label ''Mahomes'' (Num 0) (Num (2 / 5)),
          Label ''Allen'' NaN (Num (1 / 2)),
          Label ''Burrow'' (Num 4) NaN,
          Label ''Love'' (Num 8) (Num (7 / 10))]"
  by (simp add: create_qb_plot_def qb_filtered_def qb_frame_def percent_cols_def
      min_plays_filter_def column_def axis_nums_def series_nums_def
      draw_qb_row_def qb_logo_path_def getImage_qb_def load_logo_def resized_def qb_label_def
      split_ws_def set_lim_two is_space_def
      qb_row_def row_of_def demo_env_def rstrip_def digits_number_simps Let_def)

text \<open>
  Claim C5, as the code has it. On the team chart the filtered frame has a number in every
  cell of both axes, and each axis gets the limits computed from these numbers with the
  factor 1/2 (exchanged when the axis is inverted); on the quarterback chart each axis
  gets the limits computed from the numbers present on it with the factor 2/5. For at
  least two values and a factor that is not negative, the standard deviation exists and is
  not negative, the margin is the deviation times the factor, the limits are the minimum
  less the margin and the maximum plus the margin, and every value lies between them.
\<close>

theorem axis_limits_enclose_values:
  "(filtered_dataset csv x_col y_col secondary join_key = Inr plot_df
      \<and> create_nfl_scatter_plot e csv x_col y_col secondary join_key t label_col xl yl
            invert_x invert_y = Inr ch
     \<longrightarrow> column plot_df x_col = map Num (nums (column plot_df x_col))
       \<and> column plot_df y_col = map Num (nums (column plot_df y_col))
       \<and> xlim ch = invert_if invert_x (axis_limits (1 / 2) (nums (column plot_df x_col)))
       \<and> ylim ch = invert_if invert_y (axis_limits (1 / 2) (nums (column plot_df y_col))))
   \<and> (qb_filtered e data min_plays = Inr df_plot
      \<and> create_qb_plot e data x_axis y_axis min_plays t = Inr qch
     \<longrightarrow> xlim qch = axis_limits (2 / 5) (nums (column df_plot x_axis))
       \<and> ylim qch = axis_limits (2 / 5) (nums (column df_plot y_axis)))
   \<and> (2 \<le> length vs \<and> 0 \<le> k
     \<longrightarrow> (\<exists>s. pd_std vs = Some s \<and> 0 \<le> s \<and> margin k vs = Some (s * k)
           \<and> axis_limits k vs = (Some (Min (set vs) - s * k), Some (Max (set vs) + s * k))
           \<and> (\<forall>v\<in>set vs. Min (set vs) - s * k \<le> v \<and> v \<le> Max (set vs) + s * k)))"
  using team_chart_limits [of csv x_col y_col secondary join_key plot_df e t label_col xl yl
      invert_x invert_y ch]
    qb_chart_limits [of e data min_plays df_plot x_axis y_axis t qch]
    axis_limits_bounds [of vs k]
  by blast

theorem axis_limits_enclose_values_witness:
  "filtered_dataset team_frame ''X'' ''Y'' None None = Inr team_plot_frame
   \<and> (\<exists>ch. create_nfl_scatter_plot demo_env team_frame ''X'' ''Y'' None None None ''Tm'' None None
              False False = Inr ch
         \<and> xlim ch = (Some (- (1 / 8)), Some (5 / 8)))
   \<and> column team_plot_frame ''X'' = [Num 0, Num (1 / 4), Num (1 / 2)]
   \<and> (\<exists>qch. create_qb_plot demo_env qb_frame ''EPA/Play'' ''Success %'' 100 None = Inr qch
         \<and> xlim qch = (Some (- (8 / 5)), Some (48 / 5)))"
proof -
  obtain ch where ch: "create_nfl_scatter_plot demo_env team_frame ''X'' ''Y'' None None None
      ''Tm'' None None False False = Inr ch"
    using team_chart_exists by blast
  obtain qch df where qch: "create_qb_plot demo_env qb_frame ''EPA/Play'' ''Success %'' 100 None
      = Inr qch" and df: "qb_filtered demo_env qb_frame 100 = Inr df"
    and epa: "column df ''EPA/Play'' = [Num 0, NaN, Num 4, Num 8]"
    using qb_chart_evaluated by blast
  note inst = axis_limits_enclose_values [where csv = team_frame and x_col = "''X''"
      and y_col = "''Y''" and secondary = None and join_key = None
      and plot_df = team_plot_frame and e = demo_env and t = None and label_col = "''Tm''"
      and xl = None and yl = None and invert_x = False and invert_y = False and ch = ch
      and data = qb_frame and min_plays = 100 and df_plot = df and x_axis = "''EPA/Play''"
      and y_axis = "''Success %''" and qch = qch and vs = "[0, 1 / 4, 1 / 2]"
      and k = "1 / 2"]
  have "xlim ch = axis_limits (1 / 2) [0, 1 / 4, 1 / 2]"
    using inst ch team_frame_filtered by (simp add: team_plot_X invert_if_def)
  moreover have "axis_limits (1 / 2) [0, 1 / 4, 1 / 2] = (Some (- (1 / 8)), Some (5 / 8))"
    using inst by (auto simp: std_quarters)
  moreover have "xlim qch = axis_limits (2 / 5) [0, 4, 8]"
    using inst qch df by (simp add: epa)
  moreover have "axis_limits (2 / 5) [0, 4, 8] = (Some (- (8 / 5)), Some (48 / 5))"
    by (simp add: axis_limits_def margin_def nan_times_def std_fours pd_min_def pd_max_def)
  ultimately show ?thesis
    using ch qch team_frame_filtered team_plot_X by auto
qed

text \<open>The margin of the quarterback chart is not half the standard deviation: for the
  values 0, 4 and 8 the deviation is 4, the margin 8/5, and the limits are not those a
  margin of 2 would give.\<close>

theorem qb_margin_counterexample:
  "pd_std [0, 4, 8] = Some 4
   \<and> (\<exists>qch df. create_qb_plot demo_env qb_frame ''EPA/Play'' ''Success %'' 100 None = Inr qch
         \<and> qb_filtered demo_env qb_frame 100 = Inr df
         \<and> nums (column df ''EPA/Play'') = [0, 4, 8]
         \<and> xlim qch = (Some (- (8 / 5)), Some (48 / 5))
         \<and> xlim qch \<noteq> (Some (0 - 4 / 2), Some (8 + 4 / 2)))"
proof -
  obtain qch df where qch: "create_qb_plot demo_env qb_frame ''EPA/Play'' ''Success %'' 100 None
      = Inr qch" and df: "qb_filtered demo_env qb_frame 100 = Inr df"
    and epa: "column df ''EPA/Play'' = [Num 0, NaN, Num 4, Num 8]"
    using qb_chart_evaluated by blast
  have "xlim qch = axis_limits (2 / 5) [0, 4, 8]"
    using qb_chart_limits [OF df qch] by (simp add: epa)
  then have "xlim qch = (Some (- (8 / 5)), Some (48 / 5))"
    by (simp add: axis_limits_def margin_def nan_times_def std_fours pd_min_def pd_max_def)
  with qch df epa show ?thesis
    by (auto simp: std_fours)
qed


lemma single_frame_filtered:
  "filtered_dataset single_frame ''X'' ''Y'' None None = Inr single_frame"
  by (simp add: filtered_dataset_def load_and_join_def normalize_axes_def percent_step_def
      dropna_def single_frame_def column_def is_numeric_dtype_def pd_mean_def
      team_row2_def row_of_def)

lemma single_frame_X: "column single_frame ''X'' = [Num (1 / 4)]"
  by (simp add: single_frame_def column_def team_row2_def row_of_def)

lemma single_frame_Y: "column single_frame ''Y'' = [Num (2 / 5)]"
  by (simp add: single_frame_def column_def team_row2_def row_of_def)

lemma team_chart_few_rows:
  assumes "filtered_dataset csv x_col y_col secondary join_key = Inr plot_df"
    and "length (rows plot_df) < 2"
  shows "create_nfl_scatter_plot e csv x_col y_col secondary join_key t label_col xl yl
           invert_x invert_y
    = (if list_ex is_text (column plot_df x_col) \<or> list_ex is_text (column plot_df y_col)
       then Inl TypeError else Inl ValueError)"
proof -
  have "length (nums (column plot_df x_col)) < 2"
    using assms(2) length_nums_le [of "column plot_df x_col"] by (simp add: column_def)
  then have "set_lim (axis_limits (1 / 2) (nums (column plot_df x_col))) = Inl ValueError"
    by (rule set_lim_few)
  then show ?thesis
    using assms(1) by (simp add: create_nfl_scatter_plot_def Let_def series_nums_def)
qed

text \<open>
  Claim C6, as the code has it. There is no fallback: of fewer than two values the
  standard deviation is \<open>NaN\<close>, and so are the margin and both limits, which
  \<^verbatim>\<open>set_xlim\<close> refuses with \<^verbatim>\<open>ValueError\<close>. On the team chart a filtered frame of
  zero or one row therefore ends the function with an exception and without a chart: with
  \<^verbatim>\<open>TypeError\<close> from the mean when an axis column holds a text, and with \<^verbatim>\<open>ValueError\<close>
  from \<^verbatim>\<open>set_xlim\<close> otherwise.
\<close>

theorem degenerate_limits_raise:
  "(length vs < 2 \<longrightarrow>
      pd_std vs = None \<and> margin k vs = None \<and> axis_limits k vs = (None, None)
      \<and> set_lim (axis_limits k vs) = Inl ValueError)
   \<and> (filtered_dataset csv x_col y_col secondary join_key = Inr plot_df
      \<and> length (rows plot_df) < 2
     \<longrightarrow> create_nfl_scatter_plot e csv x_col y_col secondary join_key t label_col xl yl
            invert_x invert_y
         = (if list_ex is_text (column plot_df x_col) \<or> list_ex is_text (column plot_df y_col)
            then Inl TypeError else Inl ValueError))"
  using pd_std_few [of vs] axis_limits_few [of vs k] set_lim_few [of vs k]
    team_chart_few_rows [of csv x_col y_col secondary join_key plot_df e t label_col xl yl
      invert_x invert_y]
  by blast

theorem degenerate_limits_raise_witness:
  "length [1 / 4 :: real] < 2 \<and> axis_limits (1 / 2) [1 / 4] = (None, None)
   \<and> set_lim (axis_limits (1 / 2) [1 / 4]) = Inl ValueError
   \<and> filtered_dataset single_frame ''X'' ''Y'' None None = Inr single_frame
   \<and> length (rows single_frame) < 2
   \<and> create_nfl_scatter_plot demo_env single_frame ''X'' ''Y'' None None None ''Tm'' None
        None False False = Inl ValueError"
proof -
  have n: "length (rows single_frame) < 2"
    by (simp add: single_frame_def)
  show ?thesis
    using n single_frame_filtered
      degenerate_limits_raise [where vs = "[1 / 4]" and k = "1 / 2" and csv = single_frame
        and x_col = "''X''" and y_col = "''Y''" and secondary = None and join_key = None
        and plot_df = single_frame and e = demo_env and t = None and label_col = "''Tm''"
        and xl = None and yl = None and invert_x = False and invert_y = False]
    by (simp add: single_frame_X single_frame_Y set_lim_def)
qed

text \<open>A frame with a single row: the margin is not zero but \<open>NaN\<close>, and the function
  does not return a chart but raises \<^verbatim>\<open>ValueError\<close>.\<close>

theorem no_zero_margin_counterexample:
  "filtered_dataset single_frame ''X'' ''Y'' None None = Inr single_frame
   \<and> column single_frame ''X'' = [Num (1 / 4)]
   \<and> margin (1 / 2) (nums (column single_frame ''X'')) = None
   \<and> margin (1 / 2) (nums (column single_frame ''X'')) \<noteq> Some 0
   \<and> create_nfl_scatter_plot demo_env single_frame ''X'' ''Y'' None None None ''Tm'' None
        None False False = Inl ValueError"
proof -
  have "length (rows single_frame) < 2"
    by (simp add: single_frame_def)
  from team_chart_few_rows [OF single_frame_filtered this]
  have "create_nfl_scatter_plot demo_env single_frame ''X'' ''Y'' None None None ''Tm'' None
        None False False = Inl ValueError"
    by (simp add: single_frame_X single_frame_Y)
  then show ?thesis
    by (simp add: single_frame_filtered single_frame_X axis_limits_few)
qed

text \<open>
  Claim C7. The limits of an axis are computed from the filtered frame, which the flags do
  not enter, and each flag only exchanges the two limits of its own axis: the limits of
  the y axis (or the exception raised) do not depend on the flag of the x axis, those of
  the x axis do not depend on the flag of the y axis, and the limits of an inverted axis
  are those of the axis not inverted, in the other order.
\<close>

theorem inversion_independence:
  "map_sum id ylim (create_nfl_scatter_plot e csv x_col y_col secondary join_key t label_col
        xl yl invert_x invert_y)
     = map_sum id ylim (create_nfl_scatter_plot e csv x_col y_col secondary join_key t label_col
        xl yl invert_x' invert_y)
   \<and> map_sum id xlim (create_nfl_scatter_plot e csv x_col y_col secondary join_key t label_col
        xl yl invert_x invert_y)
     = map_sum id xlim (create_nfl_scatter_plot e csv x_col y_col secondary join_key t label_col
        xl yl invert_x invert_y')
   \<and> map_sum id xlim (create_nfl_scatter_plot e csv x_col y_col secondary join_key t label_col
        xl yl True invert_y)
     = map_sum id (prod.swap \<circ> xlim) (create_nfl_scatter_plot e csv x_col y_col secondary
        join_key t label_col xl yl False invert_y)
   \<and> map_sum id ylim (create_nfl_scatter_plot e csv x_col y_col secondary join_key t label_col
        xl yl invert_x True)
     = map_sum id (prod.swap \<circ> ylim) (create_nfl_scatter_plot e csv x_col y_col secondary
        join_key t label_col xl yl invert_x False)"
  by (simp add: create_nfl_scatter_plot_def Let_def invert_if_def prod.swap_def
      split: sum.splits)

theorem inversion_independence_witness:
  "map_sum id ylim (create_nfl_scatter_plot demo_env team_frame ''X'' ''Y'' None None None
        ''Tm'' None None True False)
     = map_sum id ylim (create_nfl_scatter_plot demo_env team_frame ''X'' ''Y'' None None None
        ''Tm'' None None False False)
   \<and> map_sum id xlim (create_nfl_scatter_plot demo_env team_frame ''X'' ''Y'' None None None
        ''Tm'' None None True False)
     = map_sum id (prod.swap \<circ> xlim) (create_nfl_scatter_plot demo_env team_frame ''X'' ''Y''
        None None None ''Tm'' None None False False)"
  using inversion_independence [where e = demo_env and csv = team_frame and x_col = "''X''"
      and y_col = "''Y''" and secondary = None and join_key = None and t = None
      and label_col = "''Tm''" and xl = None and yl = None and invert_x = True
      and invert_x' = False and invert_y = False and invert_y' = False]
  by blast

section \<open>Properties of the coercion and the minimum-sample filter\<close>

lemma to_numeric_idem: "to_numeric e (to_numeric e c) = to_numeric e c"
  by (cases c) (auto split: option.splits)

lemma percent_column_other:
  "percent_column e col rs = Inr rs' \<Longrightarrow> c \<noteq> col \<Longrightarrow> map (\<lambda>r. r c) rs' = map (\<lambda>r. r c) rs"
  by (induction rs arbitrary: rs') (auto split: sum.splits)

lemma percent_column_length:
  "percent_column e col rs = Inr rs' \<Longrightarrow> length rs' = length rs"
  by (induction rs arbitrary: rs') (auto split: sum.splits)

lemma coerce_columns_length:
  "coerce_columns e cols rs = Inr rs' \<Longrightarrow> length rs' = length rs"
proof (induction cols arbitrary: rs)
  case Nil
  then show ?case by simp
next
  case (Cons col cols)
  then show ?case
    by (auto split: if_splits sum.splits dest: percent_column_length)
qed

lemma coerce_columns_plain:
  assumes "coerce_columns e cols rs = Inr rs'" and "plain_numeric c"
  shows "map (\<lambda>r. r c) rs'
    = (if c \<in> set cols then map (\<lambda>r. to_numeric e (r c)) rs else map (\<lambda>r. r c) rs)"
  using assms(1)
proof (induction cols arbitrary: rs)
  case Nil
  then show ?case by simp
next
  case (Cons col cols)
  show ?case
  proof (cases "col \<in> set [''Player Name'', ''Season'', ''Team'']")
    case True
    with Cons.prems have "coerce_columns e cols rs = Inr rs'"
      by simp
    moreover from True assms(2) have "c \<noteq> col"
      by (auto simp: plain_numeric_def)
    ultimately show ?thesis
      using Cons.IH by simp
  next
    case skip: False
    show ?thesis
    proof (cases "col \<in> set percent_cols")
      case True
      with skip Cons.prems obtain rs1 where
        p: "percent_column e col rs = Inr rs1" and r: "coerce_columns e cols rs1 = Inr rs'"
        by (auto split: sum.splits)
      from True assms(2) have ne: "c \<noteq> col"
        by (auto simp: plain_numeric_def)
      from percent_column_other [OF p ne] have same: "map (\<lambda>r. r c) rs1 = map (\<lambda>r. r c) rs" .
      then have "map (to_numeric e) (map (\<lambda>r. r c) rs1) = map (to_numeric e) (map (\<lambda>r. r c) rs)"
        by (rule arg_cong)
      then have "map (\<lambda>r. to_numeric e (r c)) rs1 = map (\<lambda>r. to_numeric e (r c)) rs"
        by (simp add: o_def)
      with Cons.IH [OF r] same ne show ?thesis
        by simp
    next
      case False
      with skip Cons.prems have
        r: "coerce_columns e cols (map (\<lambda>r. r(col := to_numeric e (r col))) rs) = Inr rs'"
        by simp
      show ?thesis
        using Cons.IH [OF r] by (auto simp: to_numeric_idem o_def)
    qed
  qed
qed

lemma filter_through_zip:
  "length xs = length ys \<Longrightarrow> map f ys = map g xs \<Longrightarrow>
   filter (\<lambda>y. Q (f y)) ys = map snd (filter (\<lambda>p. Q (g (fst p))) (zip xs ys))"
  by (induction xs ys rule: list_induct2) auto

lemma min_plays_filter_Inr:
  "min_plays_filter k df = Inr df' \<Longrightarrow>
   ''Plays'' \<in> set (columns df) \<and> columns df' = columns df
   \<and> rows df' = filter (\<lambda>r. cell_ge (r ''Plays'') k) (rows df)"
  by (auto simp: min_plays_filter_def split: if_splits)

lemma cell_ge_to_numeric:
  "cell_ge (to_numeric e c) k =
     (case c of
        NaN \<Rightarrow> False
      | Num v \<Rightarrow> k \<le> v
      | Str s \<Rightarrow> s \<noteq> [] \<and> (case number_of e s of None \<Rightarrow> False | Some v \<Rightarrow> k \<le> v))"
  by (cases c) (auto split: option.splits)


lemma qb_filtered_rows:
  assumes "qb_filtered e data min_plays = Inr df_plot"
  shows "\<exists>coerced. coerce_columns e (columns data) (rows data) = Inr coerced
    \<and> length coerced = length (rows data)
    \<and> columns df_plot = columns data
    \<and> ''Plays'' \<in> set (columns data)
    \<and> rows df_plot = filter (\<lambda>r. cell_ge (r ''Plays'') min_plays) coerced"
proof -
  from assms obtain coerced where
    c: "coerce_columns e (columns data) (rows data) = Inr coerced" and
    f: "min_plays_filter min_plays (data\<lparr>rows := coerced\<rparr>) = Inr df_plot"
    by (auto simp: qb_filtered_def split: sum.splits)
  from min_plays_filter_Inr [OF f] coerce_columns_length [OF c] c show ?thesis
    by simp
qed

lemma plays_is_plain: "plain_numeric ''Plays''"
  by (simp add: plain_numeric_def percent_cols_def)

text \<open>
  Claim C10. When the quarterback chart's filter returns, the coercion loop has returned
  one coerced row for each row of the data, and the filtered frame holds, in order, exactly
  the coerced rows whose row of the data has a \<open>Plays\<close> cell that coerces to a number not
  below the threshold; nothing else of the row is read. A \<open>Plays\<close> cell coerces to such a
  number exactly when it is such a number or a non-empty text that denotes one: a missing
  cell, an empty text and a text that denotes no number never pass.
\<close>

theorem min_plays_filter_keeps:
  "(qb_filtered e data min_plays = Inr df_plot \<longrightarrow>
      (\<exists>coerced. coerce_columns e (columns data) (rows data) = Inr coerced
         \<and> length coerced = length (rows data)
         \<and> rows df_plot = filter (\<lambda>r. cell_ge (r ''Plays'') min_plays) coerced
         \<and> rows df_plot
             = map snd (filter (\<lambda>p. cell_ge (to_numeric e (fst p ''Plays'')) min_plays)
                          (zip (rows data) coerced))))
   \<and> cell_ge (to_numeric e c) min_plays =
       (case c of
          NaN \<Rightarrow> False
        | Num v \<Rightarrow> min_plays \<le> v
        | Str s \<Rightarrow> s \<noteq> [] \<and> (case number_of e s of None \<Rightarrow> False | Some v \<Rightarrow> min_plays \<le> v))
   \<and> \<not> cell_ge (to_numeric e (Str [])) min_plays
   \<and> (number_of e s = None \<longrightarrow> \<not> cell_ge (to_numeric e (Str s)) min_plays)"
proof -
  have rows_kept: "\<exists>coerced. coerce_columns e (columns data) (rows data) = Inr coerced
         \<and> length coerced = length (rows data)
         \<and> rows df_plot = filter (\<lambda>r. cell_ge (r ''Plays'') min_plays) coerced
         \<and> rows df_plot
             = map snd (filter (\<lambda>p. cell_ge (to_numeric e (fst p ''Plays'')) min_plays)
                          (zip (rows data) coerced))"
    if "qb_filtered e data min_plays = Inr df_plot"
  proof -
    from qb_filtered_rows [OF that] obtain coerced where
      c: "coerce_columns e (columns data) (rows data) = Inr coerced" and
      n: "length coerced = length (rows data)" and
      p: "''Plays'' \<in> set (columns data)" and
      f: "rows df_plot = filter (\<lambda>r. cell_ge (r ''Plays'') min_plays) coerced"
      by blast
    have "map (\<lambda>r. r ''Plays'') coerced = map (\<lambda>r. to_numeric e (r ''Plays'')) (rows data)"
      using coerce_columns_plain [OF c plays_is_plain] p by simp
    with n have "filter (\<lambda>r. cell_ge (r ''Plays'') min_plays) coerced
        = map snd (filter (\<lambda>p. cell_ge (to_numeric e (fst p ''Plays'')) min_plays)
                          (zip (rows data) coerced))"
      by (intro filter_through_zip [where f = "\<lambda>r. r ''Plays''"
            and g = "\<lambda>r. to_numeric e (r ''Plays'')" and Q = "\<lambda>v. cell_ge v min_plays"]) simp_all
    with c n f show ?thesis
      by auto
  qed
  have "\<not> cell_ge (to_numeric e (Str [])) min_plays"
    by simp
  moreover have "\<not> cell_ge (to_numeric e (Str s)) min_plays" if "number_of e s = None"
    using that by simp
  ultimately show ?thesis
    using rows_kept cell_ge_to_numeric [of e c min_plays] by blast
qed

theorem min_plays_filter_keeps_witness:
  "\<exists>df coerced. qb_filtered demo_env qb_frame 100 = Inr df
     \<and> coerce_columns demo_env (columns qb_frame) (rows qb_frame) = Inr coerced
     \<and> length coerced = length (rows qb_frame)
     \<and> rows df = filter (\<lambda>r. cell_ge (r ''Plays'') 100) coerced
     \<and> column df ''Player Name'' = [Str ''Mahomes'', Str ''Allen'', Str ''Burrow'', Str ''Love'']
     \<and> number_of demo_env ''n/a'' = None
     \<and> \<not> cell_ge (to_numeric demo_env (Str ''n/a'')) 100
     \<and> \<not> cell_ge (to_numeric demo_env (Str [])) 100"
proof -
  obtain df where df: "qb_filtered demo_env qb_frame 100 = Inr df"
    and names: "column df ''Player Name''
      = [Str ''Mahomes'', Str ''Allen'', Str ''Burrow'', Str ''Love'']"
    using qb_frame_filtered by blast
  have na: "number_of demo_env ''n/a'' = None"
    by (simp add: demo_env_def digits_number_simps)
  show ?thesis
    using df names na
      min_plays_filter_keeps [where e = demo_env and data = qb_frame and min_plays = 100
        and df_plot = df and s = "''n/a''" and c = NaN]
    by blast
qed

section \<open>Missing values\<close>

lemma team_filtered_rows:
  assumes "filtered_dataset csv x_col y_col secondary join_key = Inr plot_df"
  shows "\<exists>joined. load_and_join csv secondary join_key = Inr joined
    \<and> columns plot_df = columns joined
    \<and> rows plot_df
        = filter (\<lambda>r. r x_col \<noteq> NaN \<and> r y_col \<noteq> NaN) (rows (normalize_axes x_col y_col joined))"
proof -
  from assms obtain joined where
    j: "load_and_join csv secondary join_key = Inr joined" and
    d: "dropna [x_col, y_col] (normalize_axes x_col y_col joined) = Inr plot_df"
    by (auto simp: filtered_dataset_def split: sum.splits)
  have "columns (normalize_axes x_col y_col joined) = columns joined"
    by (simp add: normalize_axes_def columns_percent_step)
  with dropna_rows [OF d] j show ?thesis
    by simp
qed

lemma team_chart_parts:
  assumes "filtered_dataset csv x_col y_col secondary join_key = Inr plot_df"
    and "create_nfl_scatter_plot e csv x_col y_col secondary join_key t label_col xl yl
           invert_x invert_y = Inr ch"
  shows "artists ch
      = concat (map (draw_team_row e (columns plot_df) x_col y_col label_col) (rows plot_df))
    \<and> vline ch = pd_mean (nums (column plot_df x_col))
    \<and> hline ch = pd_mean (nums (column plot_df y_col))"
  using assms
  by (auto simp: create_nfl_scatter_plot_def Let_def series_nums_def split: sum.splits if_splits)

lemma qb_chart_parts:
  assumes "qb_filtered e data min_plays = Inr df_plot"
    and "create_qb_plot e data x_axis y_axis min_plays t = Inr ch"
  shows "draw_qb_rows e (columns df_plot) x_axis y_axis (rows df_plot) = Inr (artists ch)
    \<and> vline ch = pd_mean (nums (column df_plot x_axis))
    \<and> hline ch = pd_mean (nums (column df_plot y_axis))"
  using assms
  by (auto simp: create_qb_plot_def axis_nums_def series_nums_def split: sum.splits if_splits)

lemma qb_coerced_axis:
  assumes "qb_filtered e data min_plays = Inr df_plot"
    and "plain_numeric c" and "c \<in> set (columns data)"
  shows "\<exists>coerced. coerce_columns e (columns data) (rows data) = Inr coerced
    \<and> map (\<lambda>r. r c) coerced = map (\<lambda>r. to_numeric e (r c)) (rows data)
    \<and> rows df_plot = filter (\<lambda>r. cell_ge (r ''Plays'') min_plays) coerced"
proof -
  from qb_filtered_rows [OF assms(1)] obtain coerced where
    c: "coerce_columns e (columns data) (rows data) = Inr coerced" and
    f: "rows df_plot = filter (\<lambda>r. cell_ge (r ''Plays'') min_plays) coerced"
    by blast
  from coerce_columns_plain [OF c assms(2)] assms(3) c f show ?thesis
    by auto
qed

lemma to_numeric_missing:
  "s = [] \<or> number_of e s = None \<Longrightarrow> to_numeric e (Str s) = NaN"
  by auto

lemma percent_cell_empty: "rstrip CHR ''%'' s = [] \<Longrightarrow> percent_cell e (Str s) = Inr NaN"
  by simp

lemma team_plot_rows: "rows team_plot_frame = [team_row1, team_row2, team_row4]"
  by (simp add: team_plot_frame_def)

lemma epa_is_plain: "plain_numeric ''EPA/Play''"
  by (simp add: plain_numeric_def percent_cols_def)

lemma column_map_cong:
  "map (\<lambda>r. r c) rs' = map (\<lambda>r. r c) rs \<Longrightarrow> map (\<lambda>r. f (r c)) rs' = map (\<lambda>r. f (r c)) rs"
proof -
  assume "map (\<lambda>r. r c) rs' = map (\<lambda>r. r c) rs"
  then have "map f (map (\<lambda>r. r c) rs') = map f (map (\<lambda>r. r c) rs)"
    by (rule arg_cong)
  then show ?thesis
    by (simp add: o_def)
qed

lemma percent_column_same:
  "percent_column e col rs = Inr rs' \<Longrightarrow>
   map (\<lambda>r. Inr (r col)) rs' = map (\<lambda>r. percent_cell e (r col)) rs"
  by (induction rs arbitrary: rs') (auto split: sum.splits)

lemma coerce_columns_untouched:
  "coerce_columns e cols rs = Inr rs' \<Longrightarrow> c \<notin> set cols \<Longrightarrow>
   map (\<lambda>r. r c) rs' = map (\<lambda>r. r c) rs"
proof (induction cols arbitrary: rs)
  case Nil
  then show ?case by simp
next
  case (Cons col cols)
  from Cons.prems(2) have ne: "c \<noteq> col" and rest: "c \<notin> set cols"
    by auto
  show ?case
  proof (cases "col \<in> set [''Player Name'', ''Season'', ''Team'']")
    case True
    with Cons.prems(1) have "coerce_columns e cols rs = Inr rs'"
      by simp
    then show ?thesis
      using Cons.IH rest by blast
  next
    case skip: False
    show ?thesis
    proof (cases "col \<in> set percent_cols")
      case True
      with skip Cons.prems(1) obtain rs1 where
        p: "percent_column e col rs = Inr rs1" and r: "coerce_columns e cols rs1 = Inr rs'"
        by (auto split: sum.splits)
      from Cons.IH [OF r rest] percent_column_other [OF p ne] show ?thesis
        by simp
    next
      case False
      with skip Cons.prems(1) have
        r: "coerce_columns e cols (map (\<lambda>r. r(col := to_numeric e (r col))) rs) = Inr rs'"
        by simp
      from Cons.IH [OF r rest] ne show ?thesis
        by (simp add: o_def)
    qed
  qed
qed

lemma percent_not_text_column:
  "c \<in> set percent_cols \<Longrightarrow> c \<notin> set [''Player Name'', ''Season'', ''Team'']"
  by (auto simp: percent_cols_def)

lemma coerce_columns_percent:
  assumes "coerce_columns e cols rs = Inr rs'" and "distinct cols"
    and "c \<in> set cols" and "c \<in> set percent_cols"
  shows "map (\<lambda>r. Inr (r c)) rs' = map (\<lambda>r. percent_cell e (r c)) rs"
  using assms(1-3)
proof (induction cols arbitrary: rs)
  case Nil
  then show ?case by simp
next
  case (Cons col cols)
  from Cons.prems(2) have d: "distinct cols" and fresh: "col \<notin> set cols"
    by auto
  show ?case
  proof (cases "col = c")
    case True
    with assms(4) Cons.prems(1) obtain rs1 where
      p: "percent_column e c rs = Inr rs1" and r: "coerce_columns e cols rs1 = Inr rs'"
      using percent_not_text_column [OF assms(4)] by (auto split: sum.splits)
    from fresh True have "c \<notin> set cols"
      by simp
    from coerce_columns_untouched [OF r this]
    have "map (\<lambda>r. Inr (r c) :: py_error + cell) rs' = map (\<lambda>r. Inr (r c)) rs1"
      by (rule column_map_cong)
    with percent_column_same [OF p] show ?thesis
      by simp
  next
    case ne: False
    with Cons.prems(3) have inc: "c \<in> set cols"
      by auto
    from ne have ne': "c \<noteq> col"
      by simp
    show ?thesis
    proof (cases "col \<in> set [''Player Name'', ''Season'', ''Team'']")
      case True
      with Cons.prems(1) have "coerce_columns e cols rs = Inr rs'"
        by simp
      from Cons.IH [OF this d inc] show ?thesis .
    next
      case skip: False
      show ?thesis
      proof (cases "col \<in> set percent_cols")
        case True
        with skip Cons.prems(1) obtain rs1 where
          p: "percent_column e col rs = Inr rs1" and r: "coerce_columns e cols rs1 = Inr rs'"
          by (auto split: sum.splits)
        from percent_column_other [OF p ne']
        have "map (\<lambda>r. percent_cell e (r c)) rs1 = map (\<lambda>r. percent_cell e (r c)) rs"
          by (rule column_map_cong)
        with Cons.IH [OF r d inc] show ?thesis
          by simp
      next
        case False
        with skip Cons.prems(1) have
          r: "coerce_columns e cols (map (\<lambda>r. r(col := to_numeric e (r col))) rs) = Inr rs'"
          by simp
        from Cons.IH [OF r d inc] ne' show ?thesis
          by (simp add: o_def)
      qed
    qed
  qed
qed

lemma nums_skip_missing: "nums (filter (\<lambda>c. c \<noteq> NaN) cs) = nums cs"
  by (induction cs rule: nums.induct) auto

lemma column_without_missing:
  "column (df\<lparr>rows := filter (\<lambda>r. r c \<noteq> NaN) (rows df)\<rparr>) c
     = filter (\<lambda>v. v \<noteq> NaN) (column df c)"
  by (simp add: column_def filter_map o_def)

lemma team_chart_stats:
  assumes "filtered_dataset csv x_col y_col secondary join_key = Inr plot_df"
    and "create_nfl_scatter_plot e csv x_col y_col secondary join_key t label_col xl yl
           invert_x invert_y = Inr ch"
  shows "x_percent ch = nan_le (pd_max (nums (column plot_df x_col))) 1
    \<and> y_percent ch = nan_le (pd_max (nums (column plot_df y_col))) 1
    \<and> xlim ch = invert_if invert_x
        (nan_minus (pd_min (nums (column plot_df x_col)))
           (nan_times (pd_std (nums (column plot_df x_col))) (1 / 2)),
         nan_plus (pd_max (nums (column plot_df x_col)))
           (nan_times (pd_std (nums (column plot_df x_col))) (1 / 2)))
    \<and> ylim ch = invert_if invert_y
        (nan_minus (pd_min (nums (column plot_df y_col)))
           (nan_times (pd_std (nums (column plot_df y_col))) (1 / 2)),
         nan_plus (pd_max (nums (column plot_df y_col)))
           (nan_times (pd_std (nums (column plot_df y_col))) (1 / 2)))"
proof -
  have "x_percent ch = nan_le (pd_max (nums (column plot_df x_col))) 1
    \<and> y_percent ch = nan_le (pd_max (nums (column plot_df y_col))) 1"
    using assms
    by (auto simp: create_nfl_scatter_plot_def Let_def series_nums_def
        split: sum.splits if_splits)
  with team_chart_limits [OF assms] show ?thesis
    by (simp add: axis_limits_def margin_def)
qed

lemma qb_chart_stats:
  assumes "qb_filtered e data min_plays = Inr df_plot"
    and "create_qb_plot e data x_axis y_axis min_plays t = Inr ch"
  shows "xlim ch =
        (nan_minus (pd_min (nums (column df_plot x_axis)))
           (nan_times (pd_std (nums (column df_plot x_axis))) (2 / 5)),
         nan_plus (pd_max (nums (column df_plot x_axis)))
           (nan_times (pd_std (nums (column df_plot x_axis))) (2 / 5)))
    \<and> ylim ch =
        (nan_minus (pd_min (nums (column df_plot y_axis)))
           (nan_times (pd_std (nums (column df_plot y_axis))) (2 / 5)),
         nan_plus (pd_max (nums (column df_plot y_axis)))
           (nan_times (pd_std (nums (column df_plot y_axis))) (2 / 5)))"
  using qb_chart_limits [OF assms] by (simp add: axis_limits_def margin_def)

lemma axis_nums_skip_missing:
  "nums (column df c) = nums (column (df\<lparr>rows := filter (\<lambda>r. r c \<noteq> NaN) (rows df)\<rparr>) c)"
  by (simp only: column_without_missing nums_skip_missing)

lemma qb_coerced_percent:
  assumes "qb_filtered e data min_plays = Inr df_plot"
    and "distinct (columns data)" and "p \<in> set percent_cols" and "p \<in> set (columns data)"
  shows "\<exists>coerced. coerce_columns e (columns data) (rows data) = Inr coerced
    \<and> map (\<lambda>r. Inr (r p)) coerced = map (\<lambda>r. percent_cell e (r p)) (rows data)
    \<and> rows df_plot = filter (\<lambda>r. cell_ge (r ''Plays'') min_plays) coerced"
proof -
  from qb_filtered_rows [OF assms(1)] obtain coerced where
    c: "coerce_columns e (columns data) (rows data) = Inr coerced" and
    f: "rows df_plot = filter (\<lambda>r. cell_ge (r ''Plays'') min_plays) coerced"
    by blast
  from coerce_columns_percent [OF c assms(2) assms(4) assms(3)] c f show ?thesis
    by blast
qed

text \<open>
  Claim C4, as the code has it. On the team chart the filtered frame holds, in order,
  exactly the rows of the normalized frame that have a value on both axes, and the labels
  and markers, the mean lines, the percentage formats (from the maxima) and the limits (from
  the minima, the maxima and the standard deviations) of the chart are computed from the
  filtered frame. On the quarterback chart the coercion of a column raises nothing and
  gives \<open>NaN\<close> for a text that is empty or denotes no number when the column is none of the
  percentage columns; a cell of a percentage column becomes what the percentage conversion
  makes of it (the column names being distinct), \<open>NaN\<close> for a text that is empty up to
  percent signs; the filtered frame holds the coerced rows whose \<open>Plays\<close> meets the
  threshold, whatever their values on the axes; the drawing loop runs over every row of the
  filtered frame; and the mean lines and the limits (minimum, maximum and standard
  deviation) are computed from the numbers present on the axis, the same as of the frame
  without the rows that have no value there.
\<close>

theorem missing_values_excluded:
  "(filtered_dataset csv x_col y_col secondary join_key = Inr plot_df \<longrightarrow>
      (\<exists>joined. load_and_join csv secondary join_key = Inr joined
         \<and> columns plot_df = columns joined
         \<and> rows plot_df = filter (\<lambda>r. r x_col \<noteq> NaN \<and> r y_col \<noteq> NaN)
                             (rows (normalize_axes x_col y_col joined))))
   \<and> (filtered_dataset csv x_col y_col secondary join_key = Inr plot_df
       \<and> create_nfl_scatter_plot e csv x_col y_col secondary join_key t label_col xl yl
            invert_x invert_y = Inr ch \<longrightarrow>
        artists ch
          = concat (map (draw_team_row e (columns plot_df) x_col y_col label_col) (rows plot_df))
        \<and> vline ch = pd_mean (nums (column plot_df x_col))
        \<and> hline ch = pd_mean (nums (column plot_df y_col))
        \<and> x_percent ch = nan_le (pd_max (nums (column plot_df x_col))) 1
        \<and> y_percent ch = nan_le (pd_max (nums (column plot_df y_col))) 1
        \<and> xlim ch = invert_if invert_x
            (nan_minus (pd_min (nums (column plot_df x_col)))
               (nan_times (pd_std (nums (column plot_df x_col))) (1 / 2)),
             nan_plus (pd_max (nums (column plot_df x_col)))
               (nan_times (pd_std (nums (column plot_df x_col))) (1 / 2)))
        \<and> ylim ch = invert_if invert_y
            (nan_minus (pd_min (nums (column plot_df y_col)))
               (nan_times (pd_std (nums (column plot_df y_col))) (1 / 2)),
             nan_plus (pd_max (nums (column plot_df y_col)))
               (nan_times (pd_std (nums (column plot_df y_col))) (1 / 2))))
   \<and> (s = [] \<or> number_of e s = None \<longrightarrow> to_numeric e (Str s) = NaN)
   \<and> (rstrip CHR ''%'' s = [] \<longrightarrow> percent_cell e (Str s) = Inr NaN)
   \<and> (qb_filtered e data min_plays = Inr df_plot \<and> plain_numeric c \<and> c \<in> set (columns data)
        \<longrightarrow>
        (\<exists>coerced. coerce_columns e (columns data) (rows data) = Inr coerced
           \<and> map (\<lambda>r. r c) coerced = map (\<lambda>r. to_numeric e (r c)) (rows data)
           \<and> rows df_plot = filter (\<lambda>r. cell_ge (r ''Plays'') min_plays) coerced))
   \<and> (qb_filtered e data min_plays = Inr df_plot \<and> distinct (columns data)
       \<and> p \<in> set percent_cols \<and> p \<in> set (columns data) \<longrightarrow>
        (\<exists>coerced. coerce_columns e (columns data) (rows data) = Inr coerced
           \<and> map (\<lambda>r. Inr (r p)) coerced = map (\<lambda>r. percent_cell e (r p)) (rows data)
           \<and> rows df_plot = filter (\<lambda>r. cell_ge (r ''Plays'') min_plays) coerced))
   \<and> (qb_filtered e data min_plays = Inr df_plot
       \<and> create_qb_plot e data x_axis y_axis min_plays t = Inr qch \<longrightarrow>
        draw_qb_rows e (columns df_plot) x_axis y_axis (rows df_plot) = Inr (artists qch)
        \<and> vline qch = pd_mean (nums (column df_plot x_axis))
        \<and> hline qch = pd_mean (nums (column df_plot y_axis))
        \<and> xlim qch =
            (nan_minus (pd_min (nums (column df_plot x_axis)))
               (nan_times (pd_std (nums (column df_plot x_axis))) (2 / 5)),
             nan_plus (pd_max (nums (column df_plot x_axis)))
               (nan_times (pd_std (nums (column df_plot x_axis))) (2 / 5)))
        \<and> ylim qch =
            (nan_minus (pd_min (nums (column df_plot y_axis)))
               (nan_times (pd_std (nums (column df_plot y_axis))) (2 / 5)),
             nan_plus (pd_max (nums (column df_plot y_axis)))
               (nan_times (pd_std (nums (column df_plot y_axis))) (2 / 5))))
   \<and> nums (column df_plot x_axis)
       = nums (column (df_plot\<lparr>rows := filter (\<lambda>r. r x_axis \<noteq> NaN) (rows df_plot)\<rparr>) x_axis)"
  using team_filtered_rows [of csv x_col y_col secondary join_key plot_df]
    team_chart_parts [of csv x_col y_col secondary join_key plot_df e t label_col xl yl
      invert_x invert_y ch]
    team_chart_stats [of csv x_col y_col secondary join_key plot_df e t label_col xl yl
      invert_x invert_y ch]
    to_numeric_missing [of s e] percent_cell_empty [of s e]
    qb_coerced_axis [of e data min_plays df_plot c]
    qb_coerced_percent [of e data min_plays df_plot p]
    qb_chart_parts [of e data min_plays df_plot x_axis y_axis t qch]
    qb_chart_stats [of e data min_plays df_plot x_axis y_axis t qch]
    axis_nums_skip_missing [of df_plot x_axis]
  by blast


lemma qb_frame_columns:
  "columns qb_frame = [''Player Name'', ''Team'', ''Plays'', ''EPA/Play'', ''Success %'']"
  by (simp add: qb_frame_def)

theorem missing_values_excluded_witness:
  "filtered_dataset team_frame ''X'' ''Y'' None None = Inr team_plot_frame
   \<and> rows team_frame = [team_row1, team_row2, team_row3, team_row4]
   \<and> team_row3 ''Y'' = NaN
   \<and> rows team_plot_frame = [team_row1, team_row2, team_row4]
   \<and> (\<exists>ch. create_nfl_scatter_plot demo_env team_frame ''X'' ''Y'' None None None ''Tm'' None None
              False False = Inr ch
         \<and> artists ch = concat (map (draw_team_row demo_env (columns team_plot_frame) ''X'' ''Y'' ''Tm'')
                                    [team_row1, team_row2, team_row4])
         \<and> vline ch = Some (1 / 4)
         \<and> xlim ch = (Some (- (1 / 8)), Some (5 / 8)))
   \<and> to_numeric demo_env (Str []) = NaN
   \<and> percent_cell demo_env (Str []) = Inr NaN
   \<and> plain_numeric ''EPA/Play''
   \<and> distinct (columns qb_frame)
   \<and> ''Success %'' \<in> set percent_cols
   \<and> (\<exists>qch df coerced.
         create_qb_plot demo_env qb_frame ''EPA/Play'' ''Success %'' 100 None = Inr qch
         \<and> qb_filtered demo_env qb_frame 100 = Inr df
         \<and> coerce_columns demo_env (columns qb_frame) (rows qb_frame) = Inr coerced
         \<and> map (\<lambda>r. r ''EPA/Play'') coerced
             = map (\<lambda>r. to_numeric demo_env (r ''EPA/Play'')) (rows qb_frame)
         \<and> map (\<lambda>r. Inr (r ''Success %'')) coerced
             = map (\<lambda>r. percent_cell demo_env (r ''Success %'')) (rows qb_frame)
         \<and> rows df = filter (\<lambda>r. cell_ge (r ''Plays'') 100) coerced
         \<and> draw_qb_rows demo_env (columns df) ''EPA/Play'' ''Success %'' (rows df)
             = Inr (artists qch)
         \<and> vline qch = Some 4
         \<and> xlim qch = (Some (- (8 / 5)), Some (48 / 5)))"
proof -
  obtain ch where ch: "create_nfl_scatter_plot demo_env team_frame ''X'' ''Y'' None None None
      ''Tm'' None None False False = Inr ch"
    using team_chart_exists by blast
  obtain qch df where qch: "create_qb_plot demo_env qb_frame ''EPA/Play'' ''Success %'' 100 None
      = Inr qch" and df: "qb_filtered demo_env qb_frame 100 = Inr df"
    and epa: "column df ''EPA/Play'' = [Num 0, NaN, Num 4, Num 8]"
    using qb_chart_evaluated by blast
  have dist: "distinct (columns qb_frame)"
    by (simp add: qb_frame_columns)
  have pct: "''Success %'' \<in> set percent_cols"
    by (simp add: percent_cols_def)
  have cols: "''EPA/Play'' \<in> set (columns qb_frame)" "''Success %'' \<in> set (columns qb_frame)"
    by (simp_all add: qb_frame_columns)
  note inst = missing_values_excluded [where csv = team_frame and x_col = "''X''"
      and y_col = "''Y''" and secondary = None and join_key = None
      and plot_df = team_plot_frame and e = demo_env and t = None and label_col = "''Tm''"
      and xl = None and yl = None and invert_x = False and invert_y = False and ch = ch
      and data = qb_frame and min_plays = 100 and df_plot = df and x_axis = "''EPA/Play''"
      and y_axis = "''Success %''" and qch = qch and s = "[]" and c = "''EPA/Play''"
      and p = "''Success %''"]
  have team: "artists ch = concat (map (draw_team_row demo_env (columns team_plot_frame) ''X'' ''Y'' ''Tm'')
                                    [team_row1, team_row2, team_row4])
      \<and> vline ch = Some (1 / 4) \<and> xlim ch = (Some (- (1 / 8)), Some (5 / 8))"
    using inst ch team_frame_filtered
    by (simp add: team_plot_rows team_plot_X pd_mean_def invert_if_def std_quarters pd_min_def
        pd_max_def nan_times_def)
  have qb: "draw_qb_rows demo_env (columns df) ''EPA/Play'' ''Success %'' (rows df)
             = Inr (artists qch) \<and> vline qch = Some 4
      \<and> xlim qch = (Some (- (8 / 5)), Some (48 / 5))"
    using inst qch df
    by (simp add: epa pd_mean_def std_fours pd_min_def pd_max_def nan_times_def)
  have cells: "to_numeric demo_env (Str []) = NaN \<and> percent_cell demo_env (Str []) = Inr NaN"
    using inst by (simp add: rstrip_def)
  from inst df epa_is_plain cols obtain coerced where
    c: "coerce_columns demo_env (columns qb_frame) (rows qb_frame) = Inr coerced" and
    plain: "map (\<lambda>r. r ''EPA/Play'') coerced
      = map (\<lambda>r. to_numeric demo_env (r ''EPA/Play'')) (rows qb_frame)" and
    kept: "rows df = filter (\<lambda>r. cell_ge (r ''Plays'') 100) coerced"
    by blast
  from inst df dist pct cols obtain coerced' where
    c': "coerce_columns demo_env (columns qb_frame) (rows qb_frame) = Inr coerced'" and
    percent: "map (\<lambda>r. Inr (r ''Success %'')) coerced'
      = map (\<lambda>r. percent_cell demo_env (r ''Success %'')) (rows qb_frame)"
    by blast
  from c c' have same: "coerced' = coerced"
    by simp
  have "team_row3 ''Y'' = NaN"
    by (simp add: team_row3_def row_of_def)
  moreover have "rows team_frame = [team_row1, team_row2, team_row3, team_row4]"
    by (simp add: team_frame_def)
  ultimately show ?thesis
    using team qb cells ch qch df c plain percent [unfolded same] kept team_frame_filtered
      team_plot_rows epa_is_plain dist pct
    by blast
qed

text \<open>On the quarterback chart a row without a value on the x axis whose \<open>Plays\<close> meets
  the threshold is not excluded: it is a row of the filtered frame, and the drawing loop
  annotates its label at the missing coordinate.\<close>

theorem qb_missing_axis_kept_counterexample:
  "\<exists>qch df. create_qb_plot demo_env qb_frame ''EPA/Play'' ''Success %'' 100 None = Inr qch
     \<and> qb_filtered demo_env qb_frame 100 = Inr df
     \<and> column df ''Player Name'' = [Str ''Mahomes'', Str ''Allen'', Str ''Burrow'', Str ''Love'']
     \<and> column df ''EPA/Play'' = [Num 0, NaN, Num 4, Num 8]
     \<and> Label ''Allen'' NaN (Num (1 / 2)) \<in> set (artists qch)"
proof -
  obtain qch df where qch: "create_qb_plot demo_env qb_frame ''EPA/Play'' ''Success %'' 100 None
      = Inr qch" and df: "qb_filtered demo_env qb_frame 100 = Inr df"
    and epa: "column df ''EPA/Play'' = [Num 0, NaN, Num 4, Num 8]"
    and drawn: "artists qch =
         [Logo (38, 38) (Num 0) (Num (2 / 5)), Label ''Mahomes'' (Num 0) (Num (2 / 5)),
          Label ''Allen'' NaN (Num (1 / 2)),
          Label ''Burrow'' (Num 4) NaN,
          Label ''Love'' (Num 8) (Num (7 / 10))]"
    using qb_chart_evaluated by blast
  obtain df' where df': "qb_filtered demo_env qb_frame 100 = Inr df'"
    and names: "column df' ''Player Name''
      = [Str ''Mahomes'', Str ''Allen'', Str ''Burrow'', Str ''Love'']"
    using qb_frame_filtered by blast
  from df df' have "df' = df"
    by simp
  with qch df epa drawn names show ?thesis
    by auto
qed

section \<open>Properties of the left join\<close>

lemma merge_Inr:
  assumes "pd_merge_left left right key = Inr joined"
  shows "key \<in> set (columns left) \<and> key \<in> set (columns right)
    \<and> columns joined = columns left
        @ map (suffixed (columns left)) (filter (\<lambda>c. c \<noteq> key) (columns right))
    \<and> rows joined = concat (map (\<lambda>l. case matches right key l of
           [] \<Rightarrow> [merge_row (columns left) (filter (\<lambda>c. c \<noteq> key) (columns right)) l None]
         | r # rs \<Rightarrow> map (\<lambda>r. merge_row (columns left) (filter (\<lambda>c. c \<noteq> key) (columns right)) l (Some r))
                      (r # rs)) (rows left))"
  using assms by (auto simp: pd_merge_left_def Let_def split: if_splits)

text \<open>The row a left row is paired with when it has at most one match.\<close>

lemma merge_unique_rows:
  assumes "\<forall>l\<in>set ls. length (matches right key l) \<le> 1"
  shows "concat (map (\<lambda>l. case matches right key l of
           [] \<Rightarrow> [merge_row lcols rcols l None]
         | r # rs \<Rightarrow> map (\<lambda>r. merge_row lcols rcols l (Some r)) (r # rs)) ls)
    = map (\<lambda>l. merge_row lcols rcols l
              (case matches right key l of [] \<Rightarrow> None | r # rs \<Rightarrow> Some r)) ls"
  using assms
proof (induction ls)
  case Nil
  then show ?case by simp
next
  case (Cons l ls)
  then show ?case
    by (cases "matches right key l") (auto split: list.splits)
qed

lemma merge_row_left: "c \<in> set lcols \<Longrightarrow> merge_row lcols rcols l m c = l c"
  by (simp add: merge_row_def)

lemma find_suffixed:
  assumes "distinct (map (suffixed lcols) rcols)" and "c \<in> set rcols"
  shows "find (\<lambda>c'. suffixed lcols c' = suffixed lcols c) rcols = Some c"
  using assms
proof (induction rcols)
  case Nil
  then show ?case by simp
next
  case (Cons a rcols)
  then show ?case
    by (cases "a = c") (auto simp: image_iff)
qed

lemma merge_row_right:
  assumes "distinct (lcols @ map (suffixed lcols) rcols)" and "c \<in> set rcols"
  shows "merge_row lcols rcols l m (suffixed lcols c) = (case m of None \<Rightarrow> NaN | Some r \<Rightarrow> r c)"
proof -
  from assms have "suffixed lcols c \<notin> set lcols"
    by auto
  moreover from assms have "find (\<lambda>c'. suffixed lcols c' = suffixed lcols c) rcols = Some c"
    by (intro find_suffixed) auto
  ultimately show ?thesis
    by (simp add: merge_row_def)
qed


text \<open>
  Claim C8. When a secondary frame and a non-empty join key are given and the join
  returns, with at most one row of the secondary frame matching each row of the primary
  frame: the joined frame has the columns of the primary frame under their names, followed
  by the other columns of the secondary frame, those whose name is also a column of the
  primary frame renamed with the suffix \<^verbatim>\<open>_secondary\<close>; it has one row for each row of
  the primary frame, in order, and every column of the primary frame holds the values it
  held there; and, when no two columns of the joined frame have one name, a column taken
  from the secondary frame holds the value of the matching row, and \<open>NaN\<close> in the rows
  that have no match.
\<close>

theorem left_join_keeps_primary:
  assumes "load_and_join left (Some right) (Some key) = Inr joined"
    and "key \<noteq> []"
    and "list_all (\<lambda>l. length (matches right key l) \<le> 1) (rows left)"
  shows "columns joined
      = columns left @ map (suffixed (columns left)) (filter (\<lambda>c. c \<noteq> key) (columns right))
    \<and> length (rows joined) = length (rows left)
    \<and> (\<forall>c\<in>set (columns left). column joined c = column left c)
    \<and> (\<forall>c\<in>set (columns left). c \<in> set (columns right) \<and> c \<noteq> key \<longrightarrow>
          suffixed (columns left) c = c @ ''_secondary''
          \<and> c @ ''_secondary'' \<in> set (columns joined))
    \<and> (distinct (columns joined) \<longrightarrow>
         (\<forall>c\<in>set (columns right). c \<noteq> key \<longrightarrow>
            column joined (suffixed (columns left) c)
              = map (\<lambda>l. case matches right key l of [] \<Rightarrow> NaN | r # rs \<Rightarrow> r c) (rows left)))"
proof -
  let ?lcols = "columns left"
  let ?rcols = "filter (\<lambda>c. c \<noteq> key) (columns right)"
  let ?pick = "\<lambda>l. case matches right key l of [] \<Rightarrow> None | r # rs \<Rightarrow> Some r"
  from assms(1,2) have m: "pd_merge_left left right key = Inr joined"
    by (simp add: load_and_join_def)
  note parts = merge_Inr [OF m]
  from parts have cols: "columns joined = ?lcols @ map (suffixed ?lcols) ?rcols"
    by simp
  have uniq: "\<forall>l\<in>set (rows left). length (matches right key l) \<le> 1"
    using assms(3) by (simp add: list_all_iff)
  have rws: "rows joined = map (\<lambda>l. merge_row ?lcols ?rcols l (?pick l)) (rows left)"
    using parts merge_unique_rows [OF uniq, of ?lcols ?rcols] by simp
  have len: "length (rows joined) = length (rows left)"
    by (simp add: rws)
  have prim: "column joined c = column left c" if "c \<in> set ?lcols" for c
    using that by (simp add: column_def rws merge_row_left)
  have ren: "suffixed ?lcols c = c @ ''_secondary'' \<and> c @ ''_secondary'' \<in> set (columns joined)"
    if "c \<in> set ?lcols" "c \<in> set (columns right) \<and> c \<noteq> key" for c
  proof -
    have s: "suffixed ?lcols c = c @ ''_secondary''"
      using that(1) by (simp add: suffixed_def)
    moreover have "suffixed ?lcols c \<in> set (columns joined)"
      using that(2) by (simp add: cols)
    ultimately show ?thesis
      by simp
  qed
  have sec: "column joined (suffixed ?lcols c)
      = map (\<lambda>l. case matches right key l of [] \<Rightarrow> NaN | r # rs \<Rightarrow> r c) (rows left)"
    if d: "distinct (columns joined)" and c: "c \<in> set (columns right)" "c \<noteq> key" for c
  proof -
    from d have d': "distinct (?lcols @ map (suffixed ?lcols) ?rcols)"
      by (simp only: cols)
    from c have c': "c \<in> set ?rcols"
      by simp
    have "merge_row ?lcols ?rcols l (?pick l) (suffixed ?lcols c)
        = (case matches right key l of [] \<Rightarrow> NaN | r # rs \<Rightarrow> r c)" for l
      using merge_row_right [OF d' c', of l "?pick l"] by (simp split: list.splits)
    then show ?thesis
      by (simp add: column_def rws)
  qed
  from cols len prim ren sec show ?thesis
    by blast
qed

lemma primary_columns: "columns primary_frame = [''Tm'', ''X'', ''W'']"
  by (simp add: primary_frame_def)

lemma secondary_columns: "columns secondary_frame = [''Tm'', ''Y'', ''W'']"
  by (simp add: secondary_frame_def)

lemma primary_column_values:
  "column primary_frame ''Tm'' = [Str ''DAL'', Str ''NYG'', Str ''PHI'']"
  "column primary_frame ''W'' = [Num 7, Num 3, Num 11]"
  by (simp_all add: primary_frame_def column_def row_of_def)

lemma secondary_match_values:
  "map (\<lambda>l. case matches secondary_frame ''Tm'' l of [] \<Rightarrow> NaN | r # rs \<Rightarrow> r ''Y'')
       (rows primary_frame) = [Num (2 / 5), NaN, Num (1 / 5)]"
  "map (\<lambda>l. case matches secondary_frame ''Tm'' l of [] \<Rightarrow> NaN | r # rs \<Rightarrow> r ''W'')
       (rows primary_frame) = [Num 10, NaN, Num 6]"
  by (simp_all add: matches_def primary_frame_def secondary_frame_def row_of_def)

lemma secondary_match_unique:
  "list_all (\<lambda>l. length (matches secondary_frame ''Tm'' l) \<le> 1) (rows primary_frame)"
  by (simp add: matches_def primary_frame_def secondary_frame_def row_of_def)

lemma demo_join_returns:
  "\<exists>joined. load_and_join primary_frame (Some secondary_frame) (Some ''Tm'') = Inr joined"
  by (simp add: load_and_join_def pd_merge_left_def primary_columns secondary_columns Let_def)
    (simp add: primary_frame_def secondary_frame_def column_def row_of_def numeric_key_def
      is_numeric_dtype_def suffix_collides_def)


theorem left_join_keeps_primary_witness:
  "''Tm'' \<noteq> []
   \<and> list_all (\<lambda>l. length (matches secondary_frame ''Tm'' l) \<le> 1) (rows primary_frame)
   \<and> (\<exists>joined. load_and_join primary_frame (Some secondary_frame) (Some ''Tm'') = Inr joined
         \<and> columns joined = [''Tm'', ''X'', ''W'', ''Y'', ''W_secondary'']
         \<and> length (rows joined) = 3
         \<and> column joined ''Tm'' = [Str ''DAL'', Str ''NYG'', Str ''PHI'']
         \<and> column joined ''W'' = [Num 7, Num 3, Num 11]
         \<and> column joined ''Y'' = [Num (2 / 5), NaN, Num (1 / 5)]
         \<and> column joined ''W_secondary'' = [Num 10, NaN, Num 6])"
proof -
  obtain joined where
    j: "load_and_join primary_frame (Some secondary_frame) (Some ''Tm'') = Inr joined"
    using demo_join_returns by blast
  have k: "''Tm'' \<noteq> []"
    by simp
  note inst = left_join_keeps_primary [OF j k secondary_match_unique]
  have cols: "columns joined = [''Tm'', ''X'', ''W'', ''Y'', ''W_secondary'']"
    using inst by (simp add: primary_columns secondary_columns suffixed_def)
  have n: "length (rows joined) = 3"
    using inst by (simp add: primary_frame_def)
  have prim: "column joined ''Tm'' = [Str ''DAL'', Str ''NYG'', Str ''PHI'']"
    "column joined ''W'' = [Num 7, Num 3, Num 11]"
    using inst by (simp_all add: primary_columns primary_column_values)
  have d: "distinct (columns joined)"
    by (simp add: cols)
  have sy: "suffixed (columns primary_frame) ''Y'' = ''Y''"
    and sw: "suffixed (columns primary_frame) ''W'' = ''W_secondary''"
    by (simp_all add: suffixed_def primary_columns)
  from inst d have sec: "\<forall>c\<in>set (columns secondary_frame). c \<noteq> ''Tm'' \<longrightarrow>
      column joined (suffixed (columns primary_frame) c)
        = map (\<lambda>l. case matches secondary_frame ''Tm'' l of [] \<Rightarrow> NaN | r # rs \<Rightarrow> r c)
            (rows primary_frame)"
    by blast
  have "column joined ''Y'' = [Num (2 / 5), NaN, Num (1 / 5)]"
    using sec [rule_format, of "''Y''"] by (simp add: secondary_columns sy secondary_match_values)
  moreover have "column joined ''W_secondary'' = [Num 10, NaN, Num 6]"
    using sec [rule_format, of "''W''"] by (simp add: secondary_columns sw secondary_match_values)
  ultimately show ?thesis
    using j k cols n prim secondary_match_unique by blast
qed


section \<open>Logos that are missing or unreadable\<close>

lemma load_logo_no_picture:
  "load_logo NoFile zoom_size = Inl OSError" "load_logo Unreadable zoom_size = Inl OSError"
  by (simp_all add: load_logo_def)

lemma getImage_None_iff:
  "getImage e path zoom_size = None
     \<longleftrightarrow> file_at e path = NoFile \<or> isl (load_logo (file_at e path) zoom_size)"
  by (auto simp: getImage_def split: sum.splits)

lemma draw_team_row_fallback:
  assumes "file_at e (logo_path_of e cols label_col r) = NoFile
    \<or> isl (load_logo (file_at e (logo_path_of e cols label_col r)) 55)"
  shows "draw_team_row e cols x_col y_col label_col r
    = [Dot (r x_col) (r y_col),
       Label (clean_label (label_text_of e cols label_col r)) (r x_col) (r y_col)]"
  using assms getImage_None_iff [of e "logo_path_of e cols label_col r" 55]
  by (simp add: draw_team_row_def Let_def)

lemma draw_team_row_logo:
  assumes "load_logo (file_at e (logo_path_of e cols label_col r)) 55 = Inr img"
  shows "draw_team_row e cols x_col y_col label_col r
    = [Logo img (r x_col) (r y_col),
       Label (clean_label (label_text_of e cols label_col r)) (r x_col) (r y_col)]"
proof -
  from assms have "file_at e (logo_path_of e cols label_col r) \<noteq> NoFile"
    by (auto simp: load_logo_def)
  with assms show ?thesis
    by (simp add: draw_team_row_def getImage_def Let_def)
qed

lemma team_chart_any_env:
  "map_sum id (\<lambda>ch. ()) (create_nfl_scatter_plot e csv x_col y_col secondary join_key t label_col
        xl yl invert_x invert_y)
   = map_sum id (\<lambda>ch. ()) (create_nfl_scatter_plot e' csv x_col y_col secondary join_key t
        label_col xl yl invert_x invert_y)"
  by (simp add: create_nfl_scatter_plot_def Let_def split: sum.splits)

lemma draw_qb_row_no_file:
  assumes "''Player Name'' \<in> set cols" and "r ''Player Name'' = Str s"
    and "qb_label s = Inr last_name" and "file_at e (qb_logo_path e r) = NoFile"
  shows "draw_qb_row e cols x_axis y_axis r = Inr [Label last_name (r x_axis) (r y_axis)]"
  using assms by (simp add: draw_qb_row_def getImage_qb_def Let_def)

text \<open>What a row of the quarterback chart is drawn as when its drawing raises nothing.\<close>

lemma draw_qb_row_Inr:
  assumes "draw_qb_row e cols x_axis y_axis r = Inr drawn"
  shows "\<exists>s last_name. r ''Player Name'' = Str s \<and> qb_label s = Inr last_name
    \<and> (file_at e (qb_logo_path e r) = NoFile
          \<and> drawn = [Label last_name (r x_axis) (r y_axis)]
        \<or> (\<exists>img. file_at e (qb_logo_path e r) \<noteq> NoFile
              \<and> load_logo (file_at e (qb_logo_path e r)) 38 = Inr img
              \<and> drawn = [Logo img (r x_axis) (r y_axis), Label last_name (r x_axis) (r y_axis)]))"
  using assms
  by (auto simp: draw_qb_row_def getImage_qb_def Let_def
      split: if_splits sum.splits cell.splits option.splits)

text \<open>The loop returns exactly when the drawing of no row raises, and then with the
  artists of all rows in order.\<close>

lemma draw_qb_rows_Inr_iff:
  "draw_qb_rows e cols x_axis y_axis rs = Inr drawn
     \<longleftrightarrow> list_all (\<lambda>r. \<not> isl (draw_qb_row e cols x_axis y_axis r)) rs
         \<and> drawn = concat (map (\<lambda>r. projr (draw_qb_row e cols x_axis y_axis r)) rs)"
proof (induction rs arbitrary: drawn)
  case Nil
  show ?case by auto
next
  case (Cons r rs)
  show ?case
  proof (cases "draw_qb_row e cols x_axis y_axis r")
    case (Inl err)
    then show ?thesis by simp
  next
    case (Inr d)
    show ?thesis
    proof (cases "draw_qb_rows e cols x_axis y_axis rs")
      case (Inl err)
      with Cons.IH [of "concat (map (\<lambda>r. projr (draw_qb_row e cols x_axis y_axis r)) rs)"]
      have "\<not> list_all (\<lambda>r. \<not> isl (draw_qb_row e cols x_axis y_axis r)) rs"
        by simp
      with Inl Inr show ?thesis by simp
    next
      case others: (Inr ds)
      with Cons.IH [of ds] Inr show ?thesis
        by auto
    qed
  qed
qed

lemma qb_chart_artists:
  assumes "qb_filtered e data min_plays = Inr df_plot"
    and "create_qb_plot e data x_axis y_axis min_plays t = Inr qch"
  shows "list_all (\<lambda>r. \<not> isl (draw_qb_row e (columns df_plot) x_axis y_axis r)) (rows df_plot)
    \<and> artists qch
        = concat (map (\<lambda>r. projr (draw_qb_row e (columns df_plot) x_axis y_axis r)) (rows df_plot))"
  using qb_chart_parts [OF assms] draw_qb_rows_Inr_iff by blast

text \<open>
  Claim C9, as the code has it. On the team chart a row whose logo file does not exist, or
  whose file raises while it is opened, decoded or resized, is drawn as a plain dot with
  its label, and any other row as its logo with its label; the chart's artists are those
  of its rows one after the other, each row drawn from its own file only; and whether the
  function returns a chart or raises does not depend on the files. On the quarterback
  chart a row whose logo file does not exist is drawn as its label alone, without a
  marker; a row whose drawing raises nothing is drawn as its label alone when it has no
  file, and as its logo with its label otherwise; and when the function returns a chart,
  the drawing of no row has raised and the chart's artists are those of all rows of the
  filtered frame, in order.
\<close>

theorem missing_logo_fallback:
  "(file_at e (logo_path_of e cols label_col r) = NoFile
      \<or> isl (load_logo (file_at e (logo_path_of e cols label_col r)) 55) \<longrightarrow>
      draw_team_row e cols x_col y_col label_col r
        = [Dot (r x_col) (r y_col),
           Label (clean_label (label_text_of e cols label_col r)) (r x_col) (r y_col)])
   \<and> load_logo Unreadable 55 = Inl OSError
   \<and> (load_logo (file_at e (logo_path_of e cols label_col r)) 55 = Inr img \<longrightarrow>
      draw_team_row e cols x_col y_col label_col r
        = [Logo img (r x_col) (r y_col),
           Label (clean_label (label_text_of e cols label_col r)) (r x_col) (r y_col)])
   \<and> (filtered_dataset csv x_col y_col secondary join_key = Inr plot_df
       \<and> create_nfl_scatter_plot e csv x_col y_col secondary join_key t label_col xl yl
            invert_x invert_y = Inr ch \<longrightarrow>
        artists ch
          = concat (map (draw_team_row e (columns plot_df) x_col y_col label_col) (rows plot_df)))
   \<and> map_sum id (\<lambda>ch. ()) (create_nfl_scatter_plot e csv x_col y_col secondary join_key t
          label_col xl yl invert_x invert_y)
       = map_sum id (\<lambda>ch. ()) (create_nfl_scatter_plot e' csv x_col y_col secondary join_key t
          label_col xl yl invert_x invert_y)
   \<and> (''Player Name'' \<in> set cols \<and> r ''Player Name'' = Str s \<and> qb_label s = Inr last_name
       \<and> file_at e (qb_logo_path e r) = NoFile \<longrightarrow>
        draw_qb_row e cols x_axis y_axis r = Inr [Label last_name (r x_axis) (r y_axis)])
   \<and> (draw_qb_row e cols x_axis y_axis r = Inr drawn \<longrightarrow>
        (\<exists>s last_name. r ''Player Name'' = Str s \<and> qb_label s = Inr last_name
           \<and> (file_at e (qb_logo_path e r) = NoFile
                 \<and> drawn = [Label last_name (r x_axis) (r y_axis)]
               \<or> (\<exists>img. file_at e (qb_logo_path e r) \<noteq> NoFile
                     \<and> load_logo (file_at e (qb_logo_path e r)) 38 = Inr img
                     \<and> drawn = [Logo img (r x_axis) (r y_axis),
                                Label last_name (r x_axis) (r y_axis)]))))
   \<and> (qb_filtered e data min_plays = Inr df_plot
       \<and> create_qb_plot e data x_axis y_axis min_plays t = Inr qch \<longrightarrow>
        list_all (\<lambda>r. \<not> isl (draw_qb_row e (columns df_plot) x_axis y_axis r)) (rows df_plot)
        \<and> artists qch
            = concat (map (\<lambda>r. projr (draw_qb_row e (columns df_plot) x_axis y_axis r))
                        (rows df_plot)))"
  using draw_team_row_fallback [of e cols label_col r x_col y_col]
    draw_team_row_logo [of e cols label_col r img x_col y_col]
    load_logo_no_picture(2) [of 55]
    team_chart_parts [of csv x_col y_col secondary join_key plot_df e t label_col xl yl
      invert_x invert_y ch]
    team_chart_any_env [of e csv x_col y_col secondary join_key t label_col xl yl
      invert_x invert_y e']
    draw_qb_row_no_file [of cols r s last_name e x_axis y_axis]
    draw_qb_row_Inr [of e cols x_axis y_axis r drawn]
    qb_chart_artists [of e data min_plays df_plot x_axis y_axis t qch]
  by blast

lemma team_logo_paths:
  "logo_path_of demo_env (columns team_plot_frame) ''Tm'' team_row1 = ''data/logos/DAL.png''"
  "logo_path_of demo_env (columns team_plot_frame) ''Tm'' team_row2 = ''data/logos/NYG.png''"
  "logo_path_of demo_env (columns team_plot_frame) ''Tm'' team_row4 = ''data/logos/PHI.png''"
  by (simp_all add: logo_path_of_def team_plot_frame_def team_row1_def team_row2_def
      team_row4_def row_of_def)

lemma team_label_texts:
  "label_text_of demo_env (columns team_plot_frame) ''Tm'' team_row1 = ''DAL''"
  "label_text_of demo_env (columns team_plot_frame) ''Tm'' team_row2 = ''NYG''"
  "label_text_of demo_env (columns team_plot_frame) ''Tm'' team_row4 = ''PHI''"
  by (simp_all add: label_text_of_def team_plot_frame_def team_row1_def team_row2_def
      team_row4_def row_of_def)

lemma demo_files:
  "file_at demo_env ''data/logos/DAL.png'' = Picture 200 100"
  "file_at demo_env ''data/logos/NYG.png'' = Unreadable"
  "file_at demo_env ''data/logos/PHI.png'' = NoFile"
  "file_at demo_env ''data/logos/Allen.png'' = NoFile"
  "file_at demo_env ''data/logos/Stroud.png'' = Unreadable"
  by (simp_all add: demo_env_def)

lemma dallas_logo: "load_logo (Picture 200 100) 55 = Inr (55, 27)"
proof -
  have "\<lfloor>55 * (100 / 200 :: real)\<rfloor> = 27"
    by (simp add: floor_eq_iff)
  then show ?thesis
    by (simp add: load_logo_def resized_def)
qed

lemma team_row_values:
  "team_row1 ''X'' = Num 0" "team_row1 ''Y'' = Num (1 / 5)"
  "team_row2 ''X'' = Num (1 / 4)" "team_row2 ''Y'' = Num (2 / 5)"
  "team_row4 ''X'' = Num (1 / 2)" "team_row4 ''Y'' = Num (3 / 5)"
  by (simp_all add: team_row1_def team_row2_def team_row4_def row_of_def)

lemma clean_label_codes:
  "clean_label ''DAL'' = ''DAL''" "clean_label ''NYG'' = ''NYG''" "clean_label ''PHI'' = ''PHI''"
  by (simp_all add: clean_label_def)

lemma allen_row:
  "qb_row ''Allen'' ''BUF'' ''250'' [] ''50%'' ''Player Name'' = Str ''Allen''"
  "qb_row ''Allen'' ''BUF'' ''250'' [] ''50%'' ''Plays'' = Str ''250''"
  "qb_row ''Allen'' ''BUF'' ''250'' [] ''50%'' ''Team'' = Str ''BUF''"
  "qb_logo_path demo_env (qb_row ''Allen'' ''BUF'' ''250'' [] ''50%'') = ''data/logos/Allen.png''"
  "qb_label ''Allen'' = Inr ''Allen''"
  by (simp_all add: qb_row_def row_of_def qb_logo_path_def qb_label_def split_ws_def is_space_def)

theorem missing_logo_fallback_witness:
  "file_at demo_env (logo_path_of demo_env (columns team_plot_frame) ''Tm'' team_row2) = Unreadable
   \<and> draw_team_row demo_env (columns team_plot_frame) ''X'' ''Y'' ''Tm'' team_row2
       = [Dot (Num (1 / 4)) (Num (2 / 5)), Label ''NYG'' (Num (1 / 4)) (Num (2 / 5))]
   \<and> file_at demo_env (logo_path_of demo_env (columns team_plot_frame) ''Tm'' team_row4) = NoFile
   \<and> draw_team_row demo_env (columns team_plot_frame) ''X'' ''Y'' ''Tm'' team_row4
       = [Dot (Num (1 / 2)) (Num (3 / 5)), Label ''PHI'' (Num (1 / 2)) (Num (3 / 5))]
   \<and> load_logo (file_at demo_env (logo_path_of demo_env (columns team_plot_frame) ''Tm'' team_row1))
        55 = Inr (55, 27)
   \<and> draw_team_row demo_env (columns team_plot_frame) ''X'' ''Y'' ''Tm'' team_row1
       = [Logo (55, 27) (Num 0) (Num (1 / 5)), Label ''DAL'' (Num 0) (Num (1 / 5))]
   \<and> (\<exists>ch. create_nfl_scatter_plot demo_env team_frame ''X'' ''Y'' None None None ''Tm'' None None
              False False = Inr ch
         \<and> artists ch = concat (map (draw_team_row demo_env (columns team_plot_frame) ''X'' ''Y'' ''Tm'')
                                    [team_row1, team_row2, team_row4]))
   \<and> file_at demo_env (qb_logo_path demo_env (qb_row ''Allen'' ''BUF'' ''250'' [] ''50%'')) = NoFile
   \<and> draw_qb_row demo_env (columns qb_frame) ''Plays'' ''Team''
        (qb_row ''Allen'' ''BUF'' ''250'' [] ''50%'')
       = Inr [Label ''Allen'' (Str ''250'') (Str ''BUF'')]
   \<and> (\<exists>qch df. create_qb_plot demo_env qb_frame ''EPA/Play'' ''Success %'' 100 None = Inr qch
         \<and> qb_filtered demo_env qb_frame 100 = Inr df
         \<and> list_all (\<lambda>r. \<not> isl (draw_qb_row demo_env (columns df) ''EPA/Play'' ''Success %'' r))
              (rows df)
         \<and> artists qch
             = concat (map (\<lambda>r. projr (draw_qb_row demo_env (columns df) ''EPA/Play'' ''Success %'' r))
                         (rows df))
         \<and> (\<forall>r drawn. draw_qb_row demo_env (columns df) ''EPA/Play'' ''Success %'' r = Inr drawn \<longrightarrow>
              (\<exists>last_name. drawn = [Label last_name (r ''EPA/Play'') (r ''Success %'')]
                 \<or> (\<exists>img. drawn = [Logo img (r ''EPA/Play'') (r ''Success %''),
                                    Label last_name (r ''EPA/Play'') (r ''Success %'')]))))"
proof -
  obtain ch where ch: "create_nfl_scatter_plot demo_env team_frame ''X'' ''Y'' None None None
      ''Tm'' None None False False = Inr ch"
    using team_chart_exists by blast
  obtain qch df where qch: "create_qb_plot demo_env qb_frame ''EPA/Play'' ''Success %'' 100 None
      = Inr qch" and df: "qb_filtered demo_env qb_frame 100 = Inr df"
    using qb_chart_evaluated by blast
  have f2: "file_at demo_env (logo_path_of demo_env (columns team_plot_frame) ''Tm'' team_row2)
      = Unreadable"
    and f4: "file_at demo_env (logo_path_of demo_env (columns team_plot_frame) ''Tm'' team_row4)
      = NoFile"
    and f1: "load_logo (file_at demo_env
        (logo_path_of demo_env (columns team_plot_frame) ''Tm'' team_row1)) 55 = Inr (55, 27)"
    and fa: "file_at demo_env (qb_logo_path demo_env (qb_row ''Allen'' ''BUF'' ''250'' [] ''50%''))
      = NoFile"
    by (simp_all add: team_logo_paths allen_row demo_files dallas_logo)
  have r2: "draw_team_row demo_env (columns team_plot_frame) ''X'' ''Y'' ''Tm'' team_row2
       = [Dot (Num (1 / 4)) (Num (2 / 5)), Label ''NYG'' (Num (1 / 4)) (Num (2 / 5))]"
    using f2 missing_logo_fallback [where e = demo_env and cols = "columns team_plot_frame"
        and label_col = "''Tm''" and r = team_row2 and x_col = "''X''" and y_col = "''Y''"]
    by (simp add: team_label_texts team_row_values clean_label_codes)
  have r4: "draw_team_row demo_env (columns team_plot_frame) ''X'' ''Y'' ''Tm'' team_row4
       = [Dot (Num (1 / 2)) (Num (3 / 5)), Label ''PHI'' (Num (1 / 2)) (Num (3 / 5))]"
    using f4 missing_logo_fallback [where e = demo_env and cols = "columns team_plot_frame"
        and label_col = "''Tm''" and r = team_row4 and x_col = "''X''" and y_col = "''Y''"]
    by (simp add: team_label_texts team_row_values clean_label_codes)
  have r1: "draw_team_row demo_env (columns team_plot_frame) ''X'' ''Y'' ''Tm'' team_row1
       = [Logo (55, 27) (Num 0) (Num (1 / 5)), Label ''DAL'' (Num 0) (Num (1 / 5))]"
    using f1 missing_logo_fallback [where e = demo_env and cols = "columns team_plot_frame"
        and label_col = "''Tm''" and r = team_row1 and x_col = "''X''" and y_col = "''Y''"
        and img = "(55, 27)"]
    by (simp add: team_label_texts team_row_values clean_label_codes)
  have drawn: "artists ch
      = concat (map (draw_team_row demo_env (columns team_plot_frame) ''X'' ''Y'' ''Tm'')
                  [team_row1, team_row2, team_row4])"
    using ch team_frame_filtered
      missing_logo_fallback [where e = demo_env and csv = team_frame and x_col = "''X''"
        and y_col = "''Y''" and secondary = None and join_key = None
        and plot_df = team_plot_frame and t = None and label_col = "''Tm''" and xl = None
        and yl = None and invert_x = False and invert_y = False and ch = ch]
    by (simp add: team_plot_rows)
  have qb: "draw_qb_row demo_env (columns qb_frame) ''Plays'' ''Team''
        (qb_row ''Allen'' ''BUF'' ''250'' [] ''50%'')
       = Inr [Label ''Allen'' (Str ''250'') (Str ''BUF'')]"
    using fa missing_logo_fallback [where e = demo_env and cols = "columns qb_frame"
        and r = "qb_row ''Allen'' ''BUF'' ''250'' [] ''50%''" and s = "''Allen''"
        and last_name = "''Allen''" and x_axis = "''Plays''" and y_axis = "''Team''", THEN conjunct2, THEN conjunct2, THEN conjunct2, THEN conjunct2, THEN conjunct2,
        THEN conjunct1]
    by (simp add: allen_row qb_frame_columns)
  have all_rows: "list_all (\<lambda>r. \<not> isl (draw_qb_row demo_env (columns df) ''EPA/Play''
        ''Success %'' r)) (rows df)
      \<and> artists qch
          = concat (map (\<lambda>r. projr (draw_qb_row demo_env (columns df) ''EPA/Play''
              ''Success %'' r)) (rows df))"
    using qch df
      missing_logo_fallback [where e = demo_env and data = qb_frame and min_plays = 100
        and df_plot = df and x_axis = "''EPA/Play''" and y_axis = "''Success %''" and t = None
        and qch = qch, THEN conjunct2, THEN conjunct2, THEN conjunct2, THEN conjunct2, THEN conjunct2, THEN conjunct2, THEN conjunct2]
    by simp
  have each: "\<exists>last_name. drawn = [Label last_name (r ''EPA/Play'') (r ''Success %'')]
      \<or> (\<exists>img. drawn = [Logo img (r ''EPA/Play'') (r ''Success %''),
                         Label last_name (r ''EPA/Play'') (r ''Success %'')])"
    if "draw_qb_row demo_env (columns df) ''EPA/Play'' ''Success %'' r = Inr drawn" for r drawn
    using that
      missing_logo_fallback [where e = demo_env and cols = "columns df" and r = r
        and x_axis = "''EPA/Play''" and y_axis = "''Success %''" and drawn = drawn, THEN conjunct2, THEN conjunct2, THEN conjunct2, THEN conjunct2, THEN conjunct2, THEN conjunct2,
        THEN conjunct1]
    by blast
  from f2 r2 f4 r4 f1 r1 ch drawn fa qb qch df all_rows each show ?thesis
    by blast
qed

text \<open>On the quarterback chart a player without a logo file gets no fallback marker: of
  Allen, Burrow and Love, who have no file, only the labels are drawn.\<close>

theorem qb_no_fallback_marker_counterexample:
  "file_at demo_env ''data/logos/Allen.png'' = NoFile
   \<and> (\<exists>qch. create_qb_plot demo_env qb_frame ''EPA/Play'' ''Success %'' 100 None = Inr qch
         \<and> artists qch =
             [Logo (38, 38) (Num 0) (Num (2 / 5)), Label ''Mahomes'' (Num 0) (Num (2 / 5)),
              Label ''Allen'' NaN (Num (1 / 2)),
              Label ''Burrow'' (Num 4) NaN,
              Label ''Love'' (Num 8) (Num (7 / 10))]
         \<and> Dot (Num 8) (Num (7 / 10)) \<notin> set (artists qch))"
proof -
  obtain qch where "create_qb_plot demo_env qb_frame ''EPA/Play'' ''Success %'' 100 None = Inr qch"
    and "artists qch =
         [Logo (38, 38) (Num 0) (Num (2 / 5)), Label ''Mahomes'' (Num 0) (Num (2 / 5)),
          Label ''Allen'' NaN (Num (1 / 2)),
          Label ''Burrow'' (Num 4) NaN,
          Label ''Love'' (Num 8) (Num (7 / 10))]"
    using qb_chart_evaluated by blast
  then show ?thesis
    by (auto simp: demo_files)
qed

text \<open>The quarterback chart's \<^verbatim>\<open>getImage\<close> has no \<^verbatim>\<open>try\<close>: a logo file that cannot be
  decoded ends the whole function with the exception.\<close>

lemma qb_unreadable_logo_raises:
  "create_qb_plot demo_env qb_frame_unreadable ''EPA/Play'' ''Success %'' 100 None = Inl OSError"
  by (simp add: create_qb_plot_def qb_filtered_def qb_frame_unreadable_def percent_cols_def
      min_plays_filter_def column_def axis_nums_def series_nums_def
      draw_qb_row_def qb_logo_path_def getImage_qb_def load_logo_def resized_def qb_label_def
      split_ws_def set_lim_two is_space_def qb_row_def row_of_def demo_env_def rstrip_def digits_number_simps Let_def)

end
